theory Spec2Isabelle
  imports Complex_Main "HOL-Library.Word"
begin

unbundle bit_operations_syntax

section \<open>Face processing service: the pipeline of \<open>app.py\<close>\<close>

text \<open>
  The development embeds class \<open>FaceProcessor\<close> of
  \<open>face-processing-service/app.py\<close>. The repository's own code (base64 payload
  handling, face selection, padding and clamping, the quality formula, tensor layout, L2
  normalisation, result assembly and the catch-all handler) is translated function by
  function. The libraries it calls (OpenCV, ONNX Runtime) are not part of the repository:
  their numeric kernels are fields of the record \<open>externals\<close>, while the part of their
  contract the code relies on (array shapes, failure on an empty array) is written out.

  Conventions.
  \<^item> A Python exception is a value \<open>Exc cls msg\<close>; a call that may raise returns
    \<open>exc + 'a\<close> with \<open>Inl\<close> for the raise. Only instances of \<open>Exception\<close> are
    modelled (the handler is \<open>except Exception\<close>).
  \<^item> Python \<open>int\<close> is \<open>int\<close>. The detector reports boxes inside the image, whose
    sides OpenCV bounds by \<open>2^20\<close>, so no 32-bit product or sum of box coordinates wraps;
    the annotations of the source (\<open>Tuple[int, int, int, int]\<close>) are followed.
  \<^item> The scorer and the preprocessor compute on bytes, far from the limits of a float;
    their values are taken in \<open>real\<close>. The embedding is computed from whatever the
    model returns: there the range of \<open>float32\<close> (overflow, gradual underflow, division
    by zero, NaN) is modelled, see \<open>npfloat\<close> and \<open>f32\<close>, and only the rounding of a
    normal result to 24 bits is idealised.
  \<^item> \<open>time.time()\<close> is read once on entry and once when the result is built; the two
    readings are parameters \<open>t0\<close> and \<open>t1\<close> of \<open>process_image\<close>.
\<close>

subsection \<open>Exceptions\<close>

datatype exc = Exc (exc_class: string) (exc_msg: string)

text \<open>\<open>str(e)\<close> of the handler.\<close>

definition str_exc :: "exc \<Rightarrow> string" where
  "str_exc e = exc_msg e"

type_synonym byte = "8 word"

subsection \<open>base64 (Python standard library, as called by the source)\<close>

text \<open>
  \<open>base64.b64decode(s)\<close> with the default \<open>validate=False\<close>: a \<open>str\<close> argument is
  encoded as ASCII (\<open>ValueError\<close> otherwise) and handed to \<open>binascii.a2b_base64\<close> in
  non-strict mode, whose loop is transcribed below: characters outside the alphabet are
  skipped, a complete pad sequence ends the parse, and left-over sextets are an error.
\<close>

definition table_a2b_base64 :: "char \<Rightarrow> byte option" where
  "table_a2b_base64 c =
     (let n = (of_char c :: nat) in
      if 65 \<le> n \<and> n \<le> 90 then Some (of_nat (n - 65))
      else if 97 \<le> n \<and> n \<le> 122 then Some (of_nat (n - 71))
      else if 48 \<le> n \<and> n \<le> 57 then Some (of_nat (n + 4))
      else if n = 43 then Some 62
      else if n = 47 then Some 63
      else None)"

definition digit_char :: "nat \<Rightarrow> char" where
  "digit_char d = char_of (48 + d)"

fun show_nat_aux :: "nat \<Rightarrow> nat \<Rightarrow> string \<Rightarrow> string" where
  "show_nat_aux 0 n acc = acc"
| "show_nat_aux (Suc fuel) n acc =
     (if n < 10 then digit_char n # acc
      else show_nat_aux fuel (n div 10) (digit_char (n mod 10) # acc))"

text \<open>Decimal rendering (\<open>%zd\<close>); \<open>n + 1\<close> digits of fuel always suffice.\<close>

definition show_nat :: "nat \<Rightarrow> string" where
  "show_nat n = show_nat_aux (Suc n) n []"

fun a2b_loop :: "string \<Rightarrow> nat \<Rightarrow> byte \<Rightarrow> nat \<Rightarrow> byte list \<Rightarrow> exc + byte list" where
  "a2b_loop [] quad_pos leftchar pads out =
     (if quad_pos \<noteq> 0 then
        (if quad_pos = 1 then
           Inl (Exc ''binascii.Error''
             (''Invalid base64-encoded string: number of data characters ('' @
              show_nat (length out div 3 * 4 + 1) @
              '') cannot be 1 more than a multiple of 4''))
         else Inl (Exc ''binascii.Error'' ''Incorrect padding''))
      else Inr out)"
| "a2b_loop (c # cs) quad_pos leftchar pads out =
     (if c = CHR ''='' then
        (if quad_pos \<ge> 2 \<and> quad_pos + (pads + 1) \<ge> 4 then Inr out
         else a2b_loop cs quad_pos leftchar (if quad_pos \<ge> 2 then pads + 1 else pads) out)
      else
        (case table_a2b_base64 c of
           None \<Rightarrow> a2b_loop cs quad_pos leftchar pads out
         | Some this_ch \<Rightarrow>
             (if quad_pos = 0 then a2b_loop cs 1 this_ch 0 out
              else if quad_pos = 1 then
                a2b_loop cs 2 (this_ch AND 0x0f) 0
                  (out @ [push_bit 2 leftchar OR drop_bit 4 this_ch])
              else if quad_pos = 2 then
                a2b_loop cs 3 (this_ch AND 0x03) 0
                  (out @ [push_bit 4 leftchar OR drop_bit 2 this_ch])
              else a2b_loop cs 0 0 0 (out @ [push_bit 6 leftchar OR this_ch]))))"

definition is_ascii :: "char \<Rightarrow> bool" where
  "is_ascii c = ((of_char c :: nat) < 128)"

definition b64decode :: "string \<Rightarrow> exc + byte list" where
  "b64decode s =
     (if list_all is_ascii s then a2b_loop s 0 0 0 []
      else Inl (Exc ''ValueError'' ''string argument should contain only ASCII characters''))"

text \<open>\<open>base64.b64encode(buffer).decode('utf-8')\<close>.\<close>

definition table_b2a_base64 :: "byte \<Rightarrow> char" where
  "table_b2a_base64 v =
     (''ABCDEFGHIJKLMNOPQRSTUVWXYZabcdefghijklmnopqrstuvwxyz0123456789+/'') ! unat (v AND 0x3f)"

fun b64encode :: "byte list \<Rightarrow> string" where
  "b64encode (a # b # c # rest) =
     [table_b2a_base64 (drop_bit 2 a),
      table_b2a_base64 (push_bit 4 (a AND 3) OR drop_bit 4 b),
      table_b2a_base64 (push_bit 2 (b AND 0x0f) OR drop_bit 6 c),
      table_b2a_base64 (c AND 0x3f)] @ b64encode rest"
| "b64encode [a, b] =
     [table_b2a_base64 (drop_bit 2 a),
      table_b2a_base64 (push_bit 4 (a AND 3) OR drop_bit 4 b),
      table_b2a_base64 (push_bit 2 (b AND 0x0f)),
      CHR ''='']"
| "b64encode [a] =
     [table_b2a_base64 (drop_bit 2 a),
      table_b2a_base64 (push_bit 4 (a AND 3)),
      CHR ''='', CHR ''='']"
| "b64encode [] = []"

subsection \<open>Arrays and the external libraries\<close>

text \<open>
  A decoded image is a numpy array of shape \<open>(H, W, 3)\<close> and dtype \<open>uint8\<close>: a list
  of \<open>H\<close> rows of \<open>W\<close> pixels, each a triple in OpenCV's channel order B, G, R.
\<close>

type_synonym pixel = "byte \<times> byte \<times> byte"
type_synonym image = "pixel list list"
type_synonym gray_image = "byte list list"

text \<open>A face box \<open>(x, y, w, h)\<close>.\<close>

type_synonym rect = "int \<times> int \<times> int \<times> int"

text \<open>The model input, shape \<open>(1, 3, 112, 112)\<close>: batch, channel, row, column.\<close>

type_synonym tensor = "real list list list list"

text \<open>
  A float as numpy holds it where the value may be non-finite: a finite value, the two
  infinities, or NaN.
\<close>

datatype npfloat = Fin real | PInf | NInf | NaN

text \<open>
  The library kernels the code calls. Each is an arbitrary but fixed function (the
  detector and the model are loaded once and frozen):
  \<^item> \<open>imdecode\<close>: \<open>cv2.imdecode(buf, IMREAD_COLOR)\<close>, which returns \<open>None\<close> when no
    codec accepts the buffer and may raise;
  \<^item> \<open>gray_of\<close>: the per-pixel BGR to gray conversion of \<open>cv2.cvtColor\<close>;
  \<^item> \<open>detectMultiScale\<close>: the Haar cascade with the source's parameters;
  \<^item> \<open>resize_at src r c\<close>: the pixel at row \<open>r\<close>, column \<open>c\<close> of
    \<open>cv2.resize(src, (112, 112))\<close>;
  \<^item> \<open>laplacian_at gray r c\<close>: the response of \<open>cv2.Laplacian(gray, CV_64F)\<close> at
    row \<open>r\<close>, column \<open>c\<close>;
  \<^item> \<open>session_run\<close>: lines 201-205, the ONNX session on the named input, first output,
    of shape (batch, features);
  \<^item> \<open>imencode_jpg\<close>: \<open>cv2.imencode('.jpg', img)\<close>, the encoded buffer.
\<close>

record externals =
  imdecode :: "byte list \<Rightarrow> exc + image option"
  gray_of :: "pixel \<Rightarrow> byte"
  detectMultiScale :: "gray_image \<Rightarrow> exc + rect list option"
  resize_at :: "image \<Rightarrow> nat \<Rightarrow> nat \<Rightarrow> pixel"
  laplacian_at :: "gray_image \<Rightarrow> nat \<Rightarrow> nat \<Rightarrow> real"
  session_run :: "tensor \<Rightarrow> exc + npfloat list list"
  imencode_jpg :: "image \<Rightarrow> exc + byte list"

text \<open>\<open>a.shape[0]\<close> and \<open>a.shape[1]\<close> of an array held as a list of rows.\<close>

definition shape0 :: "'a list list \<Rightarrow> nat" where
  "shape0 a = length a"

definition shape1 :: "'a list list \<Rightarrow> nat" where
  "shape1 a = (case a of [] \<Rightarrow> 0 | r # _ \<Rightarrow> length r)"

definition mat_empty :: "'a list list \<Rightarrow> bool" where
  "mat_empty a = (shape0 a = 0 \<or> shape1 a = 0)"

text \<open>
  OpenCV functions assert that their source is not empty and raise \<open>cv2.error\<close>
  otherwise; the output of \<open>cvtColor\<close> has the shape of its input, that of \<open>resize\<close>
  the requested size. The wording of a library's message varies with its version; no
  statement below depends on it.
\<close>

definition cv2_error :: "string \<Rightarrow> exc" where
  "cv2_error fn = Exc ''cv2.error'' (''(-215:Assertion failed) source is empty in function '' @ fn)"

definition cvtColor_BGR2GRAY :: "externals \<Rightarrow> image \<Rightarrow> exc + gray_image" where
  "cvtColor_BGR2GRAY ext img =
     (if mat_empty img then Inl (cv2_error ''cvtColor'')
      else Inr (map (map (gray_of ext)) img))"

definition cvtColor_BGR2RGB :: "image \<Rightarrow> exc + image" where
  "cvtColor_BGR2RGB img =
     (if mat_empty img then Inl (cv2_error ''cvtColor'')
      else Inr (map (map (\<lambda>(b, g, r). (r, g, b))) img))"

definition cv2_resize_112 :: "externals \<Rightarrow> image \<Rightarrow> exc + image" where
  "cv2_resize_112 ext src =
     (if mat_empty src then Inl (cv2_error ''resize'')
      else Inr (map (\<lambda>r. map (\<lambda>c. resize_at ext src r c) [0..<112]) [0..<112]))"

definition cv2_Laplacian :: "externals \<Rightarrow> gray_image \<Rightarrow> real list list" where
  "cv2_Laplacian ext gray =
     map (\<lambda>r. map (\<lambda>c. laplacian_at ext gray r c) [0..<length (gray ! r)]) [0..<length gray]"

subsection \<open>\<open>detect_faces\<close>\<close>

text \<open>
  The body runs inside \<open>try\<close>; \<open>except Exception\<close> logs and returns the empty list, so
  the function itself never raises.
\<close>

definition detect_faces :: "externals \<Rightarrow> image \<Rightarrow> rect list" where
  "detect_faces ext img =
     (case (case cvtColor_BGR2GRAY ext img of
              Inl e \<Rightarrow> Inl e
            | Inr gray \<Rightarrow> detectMultiScale ext gray) of
        Inl e \<Rightarrow> []
      | Inr faces \<Rightarrow> (case faces of Some fs \<Rightarrow> fs | None \<Rightarrow> []))"

subsection \<open>Selecting the largest face\<close>

text \<open>
  Python's \<open>max(iterable, key=f)\<close>: the first item starts as the maximum and a later
  item replaces it only when its key is strictly greater.
\<close>

fun max_loop :: "('a \<Rightarrow> int) \<Rightarrow> 'a \<Rightarrow> int \<Rightarrow> 'a list \<Rightarrow> 'a" where
  "max_loop key max_item max_val [] = max_item"
| "max_loop key max_item max_val (item # rest) =
     (let val = key item in
      if val > max_val then max_loop key item val rest
      else max_loop key max_item max_val rest)"

definition py_max :: "('a \<Rightarrow> int) \<Rightarrow> 'a list \<Rightarrow> exc + 'a" where
  "py_max key xs =
     (case xs of
        [] \<Rightarrow> Inl (Exc ''ValueError'' ''max() arg is an empty sequence'')
      | x # rest \<Rightarrow> Inr (max_loop key x (key x) rest))"

text \<open>The key \<open>lambda f: f[2] * f[3]\<close>.\<close>

definition face_area :: "rect \<Rightarrow> int" where
  "face_area f = (case f of (x, y, w, h) \<Rightarrow> w * h)"

definition largest_face :: "rect list \<Rightarrow> exc + rect" where
  "largest_face faces = py_max face_area faces"

subsection \<open>\<open>align_face\<close>\<close>

text \<open>
  \<open>int(v)\<close> of a float truncates towards zero. The product \<open>0.2 * m\<close> is taken in the
  reals: for \<open>|m| < 2^31\<close> the double nearest to it truncates to the same integer.
\<close>

definition py_int :: "real \<Rightarrow> int" where
  "py_int v = (if 0 \<le> v then \<lfloor>v\<rfloor> else \<lceil>v\<rceil>)"

text \<open>
  A slice \<open>a[start:stop]\<close>: a negative bound counts from the end, and both bounds are
  clipped to the length.
\<close>

definition slice_index :: "nat \<Rightarrow> int \<Rightarrow> nat" where
  "slice_index n i =
     (if i < 0 then (if i + int n < 0 then 0 else nat (i + int n))
      else if i > int n then n else nat i)"

definition py_slice :: "'a list \<Rightarrow> int \<Rightarrow> int \<Rightarrow> 'a list" where
  "py_slice xs start stop =
     (let lo = slice_index (length xs) start;
          hi = slice_index (length xs) stop
      in take (hi - lo) (drop lo xs))"

text \<open>\<open>image[y1:y2, x1:x2]\<close>.\<close>

definition crop :: "'a list list \<Rightarrow> int \<Rightarrow> int \<Rightarrow> int \<Rightarrow> int \<Rightarrow> 'a list list" where
  "crop a y1 y2 x1 x2 = map (\<lambda>row. py_slice row x1 x2) (py_slice a y1 y2)"

text \<open>Lines 149 to 153: the padded box \<open>(x1, y1, x2, y2)\<close>, clamped to the image.\<close>

definition padded_region :: "'a list list \<Rightarrow> rect \<Rightarrow> int \<times> int \<times> int \<times> int" where
  "padded_region img face_rect =
     (case face_rect of (x, y, w, h) \<Rightarrow>
        let padding = py_int (0.2 * real_of_int (min w h));
            x1 = max 0 (x - padding);
            y1 = max 0 (y - padding);
            x2 = min (int (shape1 img)) (x + w + padding);
            y2 = min (int (shape0 img)) (y + h + padding)
        in (x1, y1, x2, y2))"

definition align_face :: "externals \<Rightarrow> image \<Rightarrow> rect \<Rightarrow> exc + image" where
  "align_face ext img face_rect =
     (case padded_region img face_rect of (x1, y1, x2, y2) \<Rightarrow>
        let face = crop img y1 y2 x1 x2;
            face_resized = cv2_resize_112 ext face
        in face_resized)"

subsection \<open>\<open>assess_face_quality\<close>\<close>

text \<open>
  \<open>np.mean\<close>, \<open>ndarray.var\<close> (the population variance, the mean of
  \<open>|v - mean|\<^sup>2\<close>) and \<open>ndarray.std\<close> over all elements. They are only called on
  arrays with at least one element, \<open>cvtColor\<close> having raised otherwise.
\<close>

definition np_mean :: "real list \<Rightarrow> real" where
  "np_mean xs = sum_list xs / real (length xs)"

definition np_var :: "real list \<Rightarrow> real" where
  "np_var xs = np_mean (map (\<lambda>v. \<bar>v - np_mean xs\<bar> ^ 2) xs)"

definition np_std :: "real list \<Rightarrow> real" where
  "np_std xs = sqrt (np_var xs)"

definition gray_values :: "gray_image \<Rightarrow> real list" where
  "gray_values gray = map (\<lambda>v. real (unat v)) (concat gray)"

definition quality_formula :: "real \<Rightarrow> real \<Rightarrow> real \<Rightarrow> real" where
  "quality_formula laplacian_var brightness contrast =
     (let sharpness_score = min (laplacian_var / 1000.0) 1.0;
          brightness_score = 1.0 - \<bar>brightness - 128\<bar> / 128.0;
          contrast_score = min (contrast / 64.0) 1.0
      in sharpness_score * 0.5 + brightness_score * 0.3 + contrast_score * 0.2)"

definition assess_face_quality :: "externals \<Rightarrow> image \<Rightarrow> exc + real" where
  "assess_face_quality ext face =
     (case cvtColor_BGR2GRAY ext face of
        Inl e \<Rightarrow> Inl e
      | Inr gray \<Rightarrow>
          let laplacian_var = np_var (concat (cv2_Laplacian ext gray));
              brightness = np_mean (gray_values gray);
              contrast = np_std (gray_values gray)
          in Inr (quality_formula laplacian_var brightness contrast))"

subsection \<open>\<open>preprocess_face\<close>\<close>

definition map_px :: "('a \<Rightarrow> 'b) \<Rightarrow> 'a \<times> 'a \<times> 'a \<Rightarrow> 'b \<times> 'b \<times> 'b" where
  "map_px f p = (case p of (a, b, c) \<Rightarrow> (f a, f b, f c))"

text \<open>Channel \<open>k\<close> of a pixel, \<open>p[k]\<close> for \<open>k\<close> in 0, 1, 2.\<close>

definition channel :: "nat \<Rightarrow> 'a \<times> 'a \<times> 'a \<Rightarrow> 'a" where
  "channel k p = (case p of (a, b, c) \<Rightarrow> if k = 0 then a else if k = 1 then b else c)"

text \<open>\<open>np.transpose(a, (2, 0, 1))\<close>: from (row, column, channel) to (channel, row, column).\<close>

definition transpose_hwc_chw :: "('a \<times> 'a \<times> 'a) list list \<Rightarrow> 'a list list list" where
  "transpose_hwc_chw a = map (\<lambda>k. map (map (channel k)) a) [0..<3]"

definition preprocess_face :: "image \<Rightarrow> exc + tensor" where
  "preprocess_face face =
     (case cvtColor_BGR2RGB face of
        Inl e \<Rightarrow> Inl e
      | Inr face_rgb \<Rightarrow>
          let face_normalized = map (map (map_px (\<lambda>v. real (unat v) / 255.0))) face_rgb;
              face_normalized = map (map (map_px (\<lambda>v. (v - 0.5) / 0.5))) face_normalized;
              face_transposed = transpose_hwc_chw face_normalized;
              face_batch = [face_transposed]
          in Inr face_batch)"

subsection \<open>\<open>get_embedding\<close>\<close>

text \<open>
  The model's output and everything computed from it is \<open>float32\<close>. An operation of
  IEEE 754 binary32 returns the rounding of the exact result; \<open>f32\<close> is that rounding
  with its range written out and its precision idealised:
  \<^item> a magnitude of at least \<open>2^128 - 2^103\<close> overflows to an infinity;
  \<^item> below the least normal number \<open>2^-126\<close> the result is the nearest multiple of
    \<open>2^-149\<close>, ties to even (gradual underflow; at most \<open>2^-150\<close> becomes zero);
  \<^item> in between, where rounding to 24 bits changes a value by at most one part in
    \<open>2^24\<close>, the value is taken as it is.
\<close>

definition rne :: "real \<Rightarrow> int" where
  "rne v =
     (let f = \<lfloor>v\<rfloor>; d = v - real_of_int f
      in if d < 1 / 2 then f else if 1 / 2 < d then f + 1 else if even f then f else f + 1)"

definition f32 :: "real \<Rightarrow> npfloat" where
  "f32 v =
     (if 2 ^ 128 - 2 ^ 103 \<le> \<bar>v\<bar> then (if 0 < v then PInf else NInf)
      else if \<bar>v\<bar> < 1 / 2 ^ 126 then Fin (real_of_int (rne (v * 2 ^ 149)) / 2 ^ 149)
      else Fin v)"

text \<open>
  Arithmetic on numpy floats. Dividing by zero does not raise in numpy: it yields an
  infinity, or NaN for \<open>0 / 0\<close> (with a \<open>RuntimeWarning\<close> on the log). The divisor below is
  a norm, so the sign of a zero divisor does not arise.
\<close>

fun np_square :: "npfloat \<Rightarrow> npfloat" where
  "np_square (Fin a) = f32 (a * a)"
| "np_square PInf = PInf"
| "np_square NInf = PInf"
| "np_square NaN = NaN"

fun np_add :: "npfloat \<Rightarrow> npfloat \<Rightarrow> npfloat" where
  "np_add (Fin a) (Fin b) = f32 (a + b)"
| "np_add NaN _ = NaN"
| "np_add _ NaN = NaN"
| "np_add PInf NInf = NaN"
| "np_add NInf PInf = NaN"
| "np_add PInf _ = PInf"
| "np_add _ PInf = PInf"
| "np_add NInf _ = NInf"
| "np_add _ NInf = NInf"

fun np_sqrt :: "npfloat \<Rightarrow> npfloat" where
  "np_sqrt (Fin a) = (if a < 0 then NaN else f32 (sqrt a))"
| "np_sqrt PInf = PInf"
| "np_sqrt NInf = NaN"
| "np_sqrt NaN = NaN"

fun np_divide :: "npfloat \<Rightarrow> npfloat \<Rightarrow> npfloat" where
  "np_divide (Fin a) (Fin b) =
     (if b = 0 then (if a = 0 then NaN else if 0 < a then PInf else NInf)
      else f32 (a / b))"
| "np_divide NaN _ = NaN"
| "np_divide _ NaN = NaN"
| "np_divide (Fin a) PInf = Fin 0"
| "np_divide (Fin a) NInf = Fin 0"
| "np_divide PInf (Fin b) = (if b < 0 then NInf else PInf)"
| "np_divide NInf (Fin b) = (if b < 0 then PInf else NInf)"
| "np_divide _ _ = NaN"

text \<open>
  \<open>np.linalg.norm(a, axis=1, keepdims=True)\<close> on one row: \<open>sqrt(sum(|v|\<^sup>2))\<close>, each
  square, each addition and the root a \<open>float32\<close> operation. The squares are not
  negative, so the order in which numpy adds them does not change whether the sum
  overflows or vanishes.
\<close>

definition linalg_norm :: "npfloat list \<Rightarrow> npfloat" where
  "linalg_norm row = np_sqrt (foldr np_add (map np_square row) (Fin 0))"

definition get_embedding :: "externals \<Rightarrow> tensor \<Rightarrow> exc + npfloat list" where
  "get_embedding ext face_input =
     (case session_run ext face_input of
        Inl e \<Rightarrow> Inl e
      | Inr embedding \<Rightarrow>
          let embedding_normalized =
                map (\<lambda>row. map (\<lambda>v. np_divide v (linalg_norm row)) row) embedding
          in (case embedding_normalized of
                [] \<Rightarrow> Inl (Exc ''IndexError'' ''index 0 is out of bounds for axis 0 with size 0'')
              | first # _ \<Rightarrow> Inr first))"

subsection \<open>\<open>process_image\<close>\<close>

text \<open>
  The result dictionary. With \<open>face_detected\<close> true it has the fields of \<open>detected\<close>
  (\<open>face_image\<close> only on request); with \<open>face_detected\<close> false it has \<open>error\<close> and
  \<open>processing_time\<close>.
\<close>

record detected =
  embedding :: "npfloat list"
  quality_score :: real
  processing_time :: real
  bbox :: "int list"
  image_size :: "int list"
  face_center :: "real list"
  center_offset :: "real list"
  box_ratio :: real
  face_image :: "string option"

datatype result = Detected detected | NotDetected (error: string) real

text \<open>Lines 263 to 268: the payload to bytes, the bytes to an image.\<close>

definition decode_image :: "externals \<Rightarrow> string \<Rightarrow> exc + image" where
  "decode_image ext image_data =
     (case b64decode image_data of
        Inl e \<Rightarrow> Inl e
      | Inr image_bytes \<Rightarrow>
          (case imdecode ext image_bytes of
             Inl e \<Rightarrow> Inl e
           | Inr None \<Rightarrow> Inl (Exc ''ValueError'' ''Failed to decode image'')
           | Inr (Some img) \<Rightarrow> Inr img))"

text \<open>
  Lines 296 to 301. The divisions are Python float divisions, which raise
  \<open>ZeroDivisionError\<close> on a zero divisor.
\<close>

definition zero_division :: exc where
  "zero_division = Exc ''ZeroDivisionError'' ''float division by zero''"

definition layout_metrics :: "image \<Rightarrow> rect \<Rightarrow> real \<Rightarrow> exc + detected" where
  "layout_metrics img largest elapsed =
     (case largest of (x, y, w, h) \<Rightarrow>
        let img_h = int (shape0 img);
            img_w = int (shape1 img);
            cx = real_of_int x + real_of_int w / 2.0;
            cy = real_of_int y + real_of_int h / 2.0;
            icx = real_of_int img_w / 2.0;
            icy = real_of_int img_h / 2.0
        in if img_w = 0 \<or> img_h = 0 then Inl zero_division
           else
             let dx = (cx - icx) / real_of_int img_w;
                 dy = (cy - icy) / real_of_int img_h;
                 ratio = real_of_int (w * h) / real_of_int (img_w * img_h)
             in Inr \<lparr>embedding = [], quality_score = 0, processing_time = elapsed,
                      bbox = [x, y, w, h], image_size = [img_w, img_h],
                      face_center = [cx, cy], center_offset = [dx, dy],
                      box_ratio = ratio, face_image = None\<rparr>)"

definition data_uri_prefix :: string where
  "data_uri_prefix = ''data:image/jpeg;base64,''"

text \<open>The body of the \<open>try\<close> block.\<close>

definition process_body :: "externals \<Rightarrow> real \<Rightarrow> real \<Rightarrow> string \<Rightarrow> bool \<Rightarrow> exc + result" where
  "process_body ext t0 t1 image_data return_face_image =
     (case decode_image ext image_data of
        Inl e \<Rightarrow> Inl e
      | Inr img \<Rightarrow>
     let faces = detect_faces ext img in
     if length faces = 0 then Inr (NotDetected ''No face detected in image'' (t1 - t0))
     else
     (case largest_face faces of
        Inl e \<Rightarrow> Inl e
      | Inr largest \<Rightarrow>
     (case align_face ext img largest of
        Inl e \<Rightarrow> Inl e
      | Inr aligned_face \<Rightarrow>
     (case assess_face_quality ext aligned_face of
        Inl e \<Rightarrow> Inl e
      | Inr quality \<Rightarrow>
     (case preprocess_face aligned_face of
        Inl e \<Rightarrow> Inl e
      | Inr face_input \<Rightarrow>
     (case get_embedding ext face_input of
        Inl e \<Rightarrow> Inl e
      | Inr emb \<Rightarrow>
     (case layout_metrics img largest (t1 - t0) of
        Inl e \<Rightarrow> Inl e
      | Inr metrics \<Rightarrow>
     let res = metrics\<lparr>embedding := emb, quality_score := quality\<rparr> in
     if return_face_image then
       (case imencode_jpg ext aligned_face of
          Inl e \<Rightarrow> Inl e
        | Inr buffer \<Rightarrow>
            Inr (Detected (res\<lparr>face_image := Some (data_uri_prefix @ b64encode buffer)\<rparr>)))
     else Inr (Detected res))))))))"

text \<open>\<open>except Exception as e\<close>: the fault becomes the \<open>error\<close> of a negative result.\<close>

definition process_image :: "externals \<Rightarrow> real \<Rightarrow> real \<Rightarrow> string \<Rightarrow> bool \<Rightarrow> result" where
  "process_image ext t0 t1 image_data return_face_image =
     (case process_body ext t0 t1 image_data return_face_image of
        Inr res \<Rightarrow> res
      | Inl e \<Rightarrow> NotDetected (str_exc e) (t1 - t0))"

text \<open>Reading the fields of a result that the claims speak of.\<close>

definition result_time :: "result \<Rightarrow> real" where
  "result_time r = (case r of Detected d \<Rightarrow> processing_time d | NotDetected msg t \<Rightarrow> t)"

definition result_embedding :: "result \<Rightarrow> npfloat list option" where
  "result_embedding r = (case r of Detected d \<Rightarrow> Some (embedding d) | NotDetected msg t \<Rightarrow> None)"

definition result_bbox :: "result \<Rightarrow> int list option" where
  "result_bbox r = (case r of Detected d \<Rightarrow> Some (bbox d) | NotDetected msg t \<Rightarrow> None)"

definition result_quality :: "result \<Rightarrow> real option" where
  "result_quality r = (case r of Detected d \<Rightarrow> Some (quality_score d) | NotDetected msg t \<Rightarrow> None)"

subsection \<open>Vocabulary of the statements and sample inputs\<close>

text \<open>Predicates the theorems are stated with, and concrete inputs to exercise them.\<close>

text \<open>An array of shape \<open>(H, W)\<close>: \<open>H\<close> rows, each of \<open>W\<close> elements.\<close>

definition has_shape :: "'a list list \<Rightarrow> nat \<Rightarrow> nat \<Rightarrow> bool" where
  "has_shape a H W = (length a = H \<and> list_all (\<lambda>row. length row = W) a)"

text \<open>The sub-array of rows \<open>y1 \<le> r < y2\<close> and columns \<open>x1 \<le> c < x2\<close>, by index.\<close>

definition sub_image :: "'a list list \<Rightarrow> nat \<Rightarrow> nat \<Rightarrow> nat \<Rightarrow> nat \<Rightarrow> 'a list list" where
  "sub_image a y1 y2 x1 x2 = map (\<lambda>r. map (\<lambda>c. a ! r ! c) [x1..<x2]) [y1..<y2]"

text \<open>
  Sample data: five boxes, of which the widest is the first, the tallest the second,
  and the third and fourth share the largest area; a 10 by 10 image; and
  libraries whose decoder accepts a buffer that starts with the JPEG signature, whose
  detector reports the box \<open>(2, 3, 5, 6)\<close> and whose model returns the row \<open>(3, 4)\<close>.
\<close>

definition sample_faces :: "rect list" where
  "sample_faces = [(0, 0, 10, 1), (0, 0, 1, 10), (0, 0, 4, 5), (0, 0, 5, 4), (0, 0, 3, 3)]"

definition sample_image :: image where
  "sample_image = replicate 10 (replicate 10 (10, 20, 30))"

definition sample_ext :: externals where
  "sample_ext =
     \<lparr>imdecode = (\<lambda>buf. Inr (if take 3 buf = [0xFF, 0xD8, 0xFF] then Some sample_image else None)),
      gray_of = (\<lambda>(b, g, r). g),
      detectMultiScale = (\<lambda>gray. Inr (Some [(2, 3, 5, 6)])),
      resize_at = (\<lambda>src r c. src ! 0 ! 0),
      laplacian_at = (\<lambda>gray r c. 0),
      session_run = (\<lambda>t. Inr [[Fin 3, Fin 4]]),
      imencode_jpg = (\<lambda>img. Inr [0xFF, 0xD8, 0xFF])\<rparr>"

text \<open>A 112 by 112 face for the statements about the scorer and the preprocessor.\<close>

definition sample_face :: image where
  "sample_face = replicate 112 (replicate 112 (10, 20, 30))"

text \<open>A tensor of shape \<open>(1, 3, 112, 112)\<close>, and one whose values all lie in \<open>[-1, 1]\<close>.\<close>

definition tensor_shape_ok :: "tensor \<Rightarrow> bool" where
  "tensor_shape_ok t =
     (length t = 1 \<and> list_all (\<lambda>b. length b = 3 \<and> list_all (\<lambda>plane. has_shape plane 112 112) b) t)"

definition tensor_in_range :: "tensor \<Rightarrow> bool" where
  "tensor_in_range t = list_all (list_all (list_all (list_all (\<lambda>v. - 1 \<le> v \<and> v \<le> 1)))) t"

text \<open>
  The inverse the specification describes for the round trip, in its order: \<open>x * 0.5 + 0.5\<close>,
  then times 255, then RGB to BGR, then the transposition back to (row, column, channel).
  It follows the specification's words; the source has no such function.
\<close>

definition transpose_chw_hwc :: "'a list list list \<Rightarrow> ('a \<times> 'a \<times> 'a) list list" where
  "transpose_chw_hwc a =
     map (\<lambda>r. map (\<lambda>c. (a ! 0 ! r ! c, a ! 1 ! r ! c, a ! 2 ! r ! c)) [0..<length (a ! 0 ! r)])
       [0..<length (a ! 0)]"

definition spec_unpreprocess :: "tensor \<Rightarrow> (real \<times> real \<times> real) list list" where
  "spec_unpreprocess t =
     (let x = t ! 0;
          x = map (map (map (\<lambda>v. v * 0.5 + 0.5))) x;
          x = map (map (map (\<lambda>v. v * 255))) x;
          x = rev x
      in transpose_chw_hwc x)"



text \<open>
  A model whose output is degenerate: one row of 128 zeros for every input. The other
  libraries behave as in \<open>sample_ext\<close>.
\<close>

definition zero_model_ext :: externals where
  "zero_model_ext = sample_ext\<lparr>session_run := (\<lambda>t. Inr [replicate 128 (Fin 0)])\<rparr>"

definition sample_tensor :: tensor where
  "sample_tensor = [replicate 3 (replicate 112 (replicate 112 0))]"








text \<open>
  What \<open>b64decode\<close> makes of the 20 alphabet characters \<open>dataimage/jpegbase64\<close> of
  the data-URI prefix (its \<open>:\<close>, \<open>;\<close> and \<open>,\<close> are skipped): 15 bytes.
\<close>

definition data_uri_junk :: "byte list" where
  "data_uri_junk = [117, 171, 90, 138, 102, 160, 123, 248, 233, 122, 6, 218, 177, 238, 184]"

text \<open>The same result with another elapsed time.\<close>

definition with_time :: "real \<Rightarrow> result \<Rightarrow> result" where
  "with_time t r =
     (case r of
        Detected d \<Rightarrow> Detected (d\<lparr>processing_time := t\<rparr>)
      | NotDetected msg _ \<Rightarrow> NotDetected msg t)"

text \<open>
  Libraries that fail: a cascade that raises, a detector that reports a box outside the
  10 by 10 sample image, and a model whose inference raises.
\<close>

definition cascade_fault_ext :: externals where
  "cascade_fault_ext =
     sample_ext\<lparr>detectMultiScale := (\<lambda>gray. Inl (Exc ''cv2.error'' ''cascade failed''))\<rparr>"

definition far_box_ext :: externals where
  "far_box_ext = sample_ext\<lparr>detectMultiScale := (\<lambda>gray. Inr (Some [(20, 20, 5, 5)]))\<rparr>"

definition model_fault_ext :: externals where
  "model_fault_ext =
     sample_ext\<lparr>session_run := (\<lambda>t. Inl (Exc ''RuntimeError'' ''inference failed''))\<rparr>"

section \<open>Verified properties\<close>

subsection \<open>Selection of the largest face\<close>

lemma max_loop_first:
  assumes "i < length pre" and "pre ! i = m"
    and "\<forall>j<i. key (pre ! j) < key m"
    and "\<forall>j<length pre. key (pre ! j) \<le> key m"
  shows "\<exists>k<length (pre @ rest).
           max_loop key m (key m) rest = (pre @ rest) ! k \<and>
           (\<forall>j<k. key ((pre @ rest) ! j) < key ((pre @ rest) ! k)) \<and>
           (\<forall>j<length (pre @ rest). key ((pre @ rest) ! j) \<le> key ((pre @ rest) ! k))"
  using assms
proof (induction rest arbitrary: pre i m)
  case Nil
  then show ?case by auto
next
  case (Cons item rest)
  show ?case
  proof (cases "key item > key m")
    case True
    have a: "length pre < length (pre @ [item])" by simp
    have b: "(pre @ [item]) ! length pre = item" by simp
    have c: "\<forall>j<length pre. key ((pre @ [item]) ! j) < key item"
      using Cons.prems(4) True by (auto simp: nth_append)
    have d: "\<forall>j<length (pre @ [item]). key ((pre @ [item]) ! j) \<le> key item"
      using Cons.prems(4) True by (auto simp: nth_append less_Suc_eq)
    from Cons.IH[OF a b c d] True show ?thesis by simp
  next
    case False
    have a: "i < length (pre @ [item])" using Cons.prems(1) by simp
    have b: "(pre @ [item]) ! i = m" using Cons.prems(1,2) by (simp add: nth_append)
    have c: "\<forall>j<i. key ((pre @ [item]) ! j) < key m"
      using Cons.prems(1,3) by (auto simp: nth_append)
    have d: "\<forall>j<length (pre @ [item]). key ((pre @ [item]) ! j) \<le> key m"
      using Cons.prems(4) False by (auto simp: nth_append less_Suc_eq)
    from Cons.IH[OF a b c d] False show ?thesis by simp
  qed
qed

text \<open>
  C8. For a non-empty list of detected boxes, line 281 returns a box of the list whose
  area \<open>w * h\<close> is maximal, and every box reported before it has a strictly smaller
  area: among boxes of equal maximal area the first in detector order is kept.
\<close>

theorem largest_face_first_maximum:
  assumes "faces \<noteq> []"
  shows "\<exists>k<length faces.
           largest_face faces = Inr (faces ! k) \<and>
           (\<forall>j<length faces.
              (case faces ! j of (x, y, w, h) \<Rightarrow> w * h) \<le> (case faces ! k of (x, y, w, h) \<Rightarrow> w * h)) \<and>
           (\<forall>j<k.
              (case faces ! j of (x, y, w, h) \<Rightarrow> w * h) < (case faces ! k of (x, y, w, h) \<Rightarrow> w * h))"
proof -
  from assms obtain f rest where fs: "faces = f # rest" by (cases faces) auto
  have "\<exists>k<length ([f] @ rest).
           max_loop face_area f (face_area f) rest = ([f] @ rest) ! k \<and>
           (\<forall>j<k. face_area (([f] @ rest) ! j) < face_area (([f] @ rest) ! k)) \<and>
           (\<forall>j<length ([f] @ rest). face_area (([f] @ rest) ! j) \<le> face_area (([f] @ rest) ! k))"
    by (rule max_loop_first[where i = 0]) auto
  then have "\<exists>k<length faces.
           largest_face faces = Inr (faces ! k) \<and>
           (\<forall>j<length faces. face_area (faces ! j) \<le> face_area (faces ! k)) \<and>
           (\<forall>j<k. face_area (faces ! j) < face_area (faces ! k))"
    unfolding fs largest_face_def py_max_def by auto
  then show ?thesis unfolding face_area_def .
qed

theorem largest_face_first_maximum_witness:
  "sample_faces \<noteq> [] \<and>
   (\<exists>k<length sample_faces.
       largest_face sample_faces = Inr (sample_faces ! k) \<and>
       (\<forall>j<length sample_faces.
          (case sample_faces ! j of (x, y, w, h) \<Rightarrow> w * h)
            \<le> (case sample_faces ! k of (x, y, w, h) \<Rightarrow> w * h)) \<and>
       (\<forall>j<k.
          (case sample_faces ! j of (x, y, w, h) \<Rightarrow> w * h)
            < (case sample_faces ! k of (x, y, w, h) \<Rightarrow> w * h))) \<and>
   largest_face sample_faces = Inr (0, 0, 4, 5)"
proof -
  have h: "sample_faces \<noteq> []" by (simp add: sample_faces_def)
  have v: "largest_face sample_faces = Inr (0, 0, 4, 5)"
    by (simp add: sample_faces_def largest_face_def py_max_def face_area_def)
  show ?thesis using h largest_face_first_maximum [OF h] v by (intro conjI)
qed

subsection \<open>Alignment: padding, clamping, cropping, resizing\<close>

lemma py_int_fifth: "0 \<le> m \<Longrightarrow> py_int (0.2 * real_of_int m) = m div 5"
proof -
  assume "0 \<le> m"
  have "0.2 * real_of_int m = real_of_int m / 5" by simp
  then have "\<lfloor>0.2 * real_of_int m\<rfloor> = m div 5"
    using floor_divide_of_int_eq[of m 5, where ?'a = real] by simp
  with \<open>0 \<le> m\<close> show ?thesis by (simp add: py_int_def)
qed

lemma py_slice_in_range:
  assumes "0 \<le> lo" "lo \<le> hi" "hi \<le> int (length xs)"
  shows "py_slice xs lo hi = map (\<lambda>k. xs ! k) [nat lo..<nat hi]"
proof -
  have lo: "slice_index (length xs) lo = nat lo" using assms by (simp add: slice_index_def)
  have hi: "slice_index (length xs) hi = nat hi" using assms by (simp add: slice_index_def)
  have nh: "nat hi \<le> length xs" and nl: "nat lo \<le> nat hi" using assms by auto
  have "take (nat hi - nat lo) (drop (nat lo) xs) = map (\<lambda>k. xs ! k) [nat lo..<nat hi]"
  proof (rule nth_equalityI)
    show "length (take (nat hi - nat lo) (drop (nat lo) xs)) = length (map (\<lambda>k. xs ! k) [nat lo..<nat hi])"
      using nh nl by simp
  next
    fix i assume "i < length (take (nat hi - nat lo) (drop (nat lo) xs))"
    then have "i < nat hi - nat lo" by simp
    then show "take (nat hi - nat lo) (drop (nat lo) xs) ! i = map (\<lambda>k. xs ! k) [nat lo..<nat hi] ! i"
      using nh nl by simp
  qed
  then show ?thesis by (simp add: py_slice_def lo hi)
qed

lemma crop_in_range:
  assumes "has_shape a H W" "0 \<le> y1" "y1 \<le> y2" "y2 \<le> int H" "0 \<le> x1" "x1 \<le> x2" "x2 \<le> int W"
  shows "crop a y1 y2 x1 x2 = sub_image a (nat y1) (nat y2) (nat x1) (nat x2)"
proof -
  have len: "length a = H" and rows: "\<And>r. r < H \<Longrightarrow> length (a ! r) = W"
    using assms(1) by (auto simp: has_shape_def list_all_length)
  have rows_slice: "py_slice a y1 y2 = map (\<lambda>k. a ! k) [nat y1..<nat y2]"
    using assms len by (intro py_slice_in_range) auto
  have "\<And>r. r \<in> set [nat y1..<nat y2] \<Longrightarrow>
          py_slice (a ! r) x1 x2 = map (\<lambda>c. a ! r ! c) [nat x1..<nat x2]"
  proof -
    fix r assume "r \<in> set [nat y1..<nat y2]"
    then have "r < H" using assms by auto
    then show "py_slice (a ! r) x1 x2 = map (\<lambda>c. a ! r ! c) [nat x1..<nat x2]"
      using assms rows by (intro py_slice_in_range) auto
  qed
  then show ?thesis
    by (simp add: crop_def sub_image_def rows_slice)
qed

lemma shape1_has_shape: "has_shape a H W \<Longrightarrow> 0 < H \<Longrightarrow> shape1 a = W"
  by (cases a) (auto simp: has_shape_def shape1_def)

lemma shape0_has_shape: "has_shape a H W \<Longrightarrow> shape0 a = H"
  by (simp add: has_shape_def shape0_def)

lemma sub_image_not_empty: "y1 < y2 \<Longrightarrow> x1 < x2 \<Longrightarrow> \<not> mat_empty (sub_image a y1 y2 x1 x2)"
  by (simp add: mat_empty_def shape0_def shape1_def sub_image_def upt_conv_Cons)

lemma resize_shape: "cv2_resize_112 ext src = Inr dst \<Longrightarrow> has_shape dst 112 112"
  by (auto simp: cv2_resize_112_def has_shape_def list_all_iff split: if_splits)

lemma resize_ok: "\<not> mat_empty src \<Longrightarrow> \<exists>dst. cv2_resize_112 ext src = Inr dst"
  by (simp add: cv2_resize_112_def)

lemma padded_region_in_bounds:
  assumes "has_shape img H W" "0 < w" "0 < h" "0 \<le> x" "x + w \<le> int W" "0 \<le> y" "y + h \<le> int H"
  shows "padded_region img (x, y, w, h) =
           (max 0 (x - min w h div 5), max 0 (y - min w h div 5),
            min (int W) (x + w + min w h div 5), min (int H) (y + h + min w h div 5))"
proof -
  have "0 < H" using assms by auto
  then have s1: "shape1 img = W" using assms(1) by (rule shape1_has_shape[rotated])
  have s0: "shape0 img = H" using assms(1) by (rule shape0_has_shape)
  have p: "py_int (0.2 * real_of_int (min w h)) = min w h div 5"
    using assms by (intro py_int_fifth) auto
  show ?thesis
    unfolding padded_region_def by (simp only: prod.case p s0 s1 Let_def)
qed

lemma align_face_in_bounds:
  fixes x y w h :: int and W H :: nat
  defines "p \<equiv> min w h div 5"
  defines "x1 \<equiv> max 0 (x - p)" and "y1 \<equiv> max 0 (y - p)"
  defines "x2 \<equiv> min (int W) (x + w + p)" and "y2 \<equiv> min (int H) (y + h + p)"
  assumes "has_shape img H W" "0 < w" "0 < h" "0 \<le> x" "x + w \<le> int W" "0 \<le> y" "y + h \<le> int H"
  shows "x1 < x2 \<and> y1 < y2 \<and>
         align_face ext img (x, y, w, h) =
           cv2_resize_112 ext (sub_image img (nat y1) (nat y2) (nat x1) (nat x2)) \<and>
         (\<exists>aligned. align_face ext img (x, y, w, h) = Inr aligned \<and> has_shape aligned 112 112)"
proof -
  have p0: "0 \<le> p" using assms by (simp add: p_def)
  have xs: "0 \<le> x1" "x1 \<le> x" "x + w \<le> x2" "x2 \<le> int W"
    using assms p0 by (auto simp: x1_def x2_def)
  have ys: "0 \<le> y1" "y1 \<le> y" "y + h \<le> y2" "y2 \<le> int H"
    using assms p0 by (auto simp: y1_def y2_def)
  have lt: "x1 < x2" "y1 < y2" using xs ys assms by auto
  have reg: "padded_region img (x, y, w, h) = (x1, y1, x2, y2)"
    using padded_region_in_bounds[of img H W w h x y] assms(6-12)
    by (simp add: x1_def y1_def x2_def y2_def p_def)
  have cr: "crop img y1 y2 x1 x2 = sub_image img (nat y1) (nat y2) (nat x1) (nat x2)"
    using assms(6) ys xs lt by (intro crop_in_range) auto
  have ne: "\<not> mat_empty (sub_image img (nat y1) (nat y2) (nat x1) (nat x2))"
    using lt xs ys by (intro sub_image_not_empty) auto
  have al: "align_face ext img (x, y, w, h) =
           cv2_resize_112 ext (sub_image img (nat y1) (nat y2) (nat x1) (nat x2))"
    by (simp add: align_face_def reg cr)
  obtain dst where dst: "cv2_resize_112 ext (sub_image img (nat y1) (nat y2) (nat x1) (nat x2)) = Inr dst"
    using resize_ok[OF ne] by blast
  have "has_shape dst 112 112" using dst by (rule resize_shape)
  with al dst lt show ?thesis by simp
qed

lemma sample_image_shape: "has_shape sample_image 10 10"
  by (simp add: sample_image_def has_shape_def list_all_iff)

text \<open>
  C10. For an image of \<open>H\<close> rows and \<open>W\<close> columns and a box with \<open>w > 0\<close>,
  \<open>h > 0\<close>, \<open>0 \<le> x\<close>, \<open>x + w \<le> W\<close>, \<open>0 \<le> y\<close>, \<open>y + h \<le> H\<close>, the clamped
  padded region of \<open>align_face\<close> is not empty (\<open>x1 < x2\<close> and \<open>y1 < y2\<close>), and
  \<open>align_face\<close> returns an image: it does not raise.
\<close>

theorem align_face_region_nonempty:
  assumes "has_shape img H W" "0 < w" "0 < h" "0 \<le> x" "x + w \<le> int W" "0 \<le> y" "y + h \<le> int H"
  shows "(case padded_region img (x, y, w, h) of (x1, y1, x2, y2) \<Rightarrow> x1 < x2 \<and> y1 < y2) \<and>
         (\<exists>aligned. align_face ext img (x, y, w, h) = Inr aligned)"
proof -
  note a = align_face_in_bounds[OF assms, of ext]
  have "\<exists>aligned. align_face ext img (x, y, w, h) = Inr aligned"
    using a by blast
  moreover have "case padded_region img (x, y, w, h) of (x1, y1, x2, y2) \<Rightarrow> x1 < x2 \<and> y1 < y2"
    using a by (simp add: padded_region_in_bounds[OF assms])
  ultimately show ?thesis by simp
qed

theorem align_face_region_nonempty_witness:
  "has_shape sample_image 10 10 \<and> (0::int) < 5 \<and> (0::int) < 6 \<and> (0::int) \<le> 2 \<and>
   (2::int) + 5 \<le> int 10 \<and> (0::int) \<le> 3 \<and> (3::int) + 6 \<le> int 10 \<and>
   (case padded_region sample_image (2, 3, 5, 6) of (x1, y1, x2, y2) \<Rightarrow> x1 < x2 \<and> y1 < y2) \<and>
   (\<exists>aligned. align_face sample_ext sample_image (2, 3, 5, 6) = Inr aligned) \<and>
   padded_region sample_image (2, 3, 5, 6) = (1, 2, 8, 10)"
proof -
  have v: "padded_region sample_image (2, 3, 5, 6) = (1, 2, 8, 10)"
    by (simp add: padded_region_def shape0_has_shape[OF sample_image_shape]
          shape1_has_shape[OF sample_image_shape] py_int_def)
  have c: "(case padded_region sample_image (2, 3, 5, 6) of (x1, y1, x2, y2) \<Rightarrow> x1 < x2 \<and> y1 < y2) \<and>
     (\<exists>aligned. align_face sample_ext sample_image (2, 3, 5, 6) = Inr aligned)"
    by (rule align_face_region_nonempty[OF sample_image_shape]) simp_all
  show ?thesis using sample_image_shape c v by simp
qed

text \<open>
  C5. For a box inside the image with positive sides, \<open>align_face\<close> takes
  \<open>padding = floor(0.2 * min(w, h))\<close>, widens the box by it on all four sides, clamps
  the result to the image, and resizes exactly the pixels of that region (rows
  \<open>y1 \<le> r < y2\<close>, columns \<open>x1 \<le> c < x2\<close>) to an image of 112 rows and 112 columns,
  whatever the size of the box.
\<close>

theorem align_face_pads_clamps_resizes:
  fixes x y w h :: int and W H :: nat
  defines "padding \<equiv> \<lfloor>0.2 * real_of_int (min w h)\<rfloor>"
  defines "x1 \<equiv> max 0 (x - padding)" and "y1 \<equiv> max 0 (y - padding)"
  defines "x2 \<equiv> min (int W) (x + w + padding)" and "y2 \<equiv> min (int H) (y + h + padding)"
  assumes "has_shape img H W" "0 < w" "0 < h" "0 \<le> x" "x + w \<le> int W" "0 \<le> y" "y + h \<le> int H"
  shows "padded_region img (x, y, w, h) = (x1, y1, x2, y2) \<and>
         align_face ext img (x, y, w, h) =
           cv2_resize_112 ext (sub_image img (nat y1) (nat y2) (nat x1) (nat x2)) \<and>
         (\<exists>aligned. align_face ext img (x, y, w, h) = Inr aligned \<and> has_shape aligned 112 112)"
proof -
  have "0 \<le> min w h" using assms by auto
  then have "py_int (0.2 * real_of_int (min w h)) = min w h div 5" by (rule py_int_fifth)
  moreover have "py_int (0.2 * real_of_int (min w h)) = padding"
    using \<open>0 \<le> min w h\<close> by (simp add: py_int_def padding_def)
  ultimately have pd: "padding = min w h div 5" by simp
  note a = align_face_in_bounds[OF assms(6-12), of ext]
  have reg: "padded_region img (x, y, w, h) = (x1, y1, x2, y2)"
    using padded_region_in_bounds[OF assms(6-12)] by (simp add: x1_def y1_def x2_def y2_def pd)
  have al: "align_face ext img (x, y, w, h) =
           cv2_resize_112 ext (sub_image img (nat y1) (nat y2) (nat x1) (nat x2))"
    using a by (simp add: x1_def y1_def x2_def y2_def pd)
  have "\<exists>aligned. align_face ext img (x, y, w, h) = Inr aligned \<and> has_shape aligned 112 112"
    using a by blast
  with reg al show ?thesis by blast
qed

theorem align_face_pads_clamps_resizes_witness:
  "(has_shape sample_image 10 10 \<and> (0::int) < 5 \<and> (0::int) < 6 \<and> (0::int) \<le> 2 \<and>
    (2::int) + 5 \<le> int 10 \<and> (0::int) \<le> 3 \<and> (3::int) + 6 \<le> int 10) \<and>
   (padded_region sample_image (2, 3, 5, 6) =
       (max 0 (2 - \<lfloor>0.2 * real_of_int (min 5 6)\<rfloor>), max 0 (3 - \<lfloor>0.2 * real_of_int (min 5 6)\<rfloor>),
        min (int 10) (2 + 5 + \<lfloor>0.2 * real_of_int (min 5 6)\<rfloor>),
        min (int 10) (3 + 6 + \<lfloor>0.2 * real_of_int (min 5 6)\<rfloor>)) \<and>
    align_face sample_ext sample_image (2, 3, 5, 6) =
       cv2_resize_112 sample_ext
         (sub_image sample_image (nat (max 0 (3 - \<lfloor>0.2 * real_of_int (min 5 6)\<rfloor>)))
            (nat (min (int 10) (3 + 6 + \<lfloor>0.2 * real_of_int (min 5 6)\<rfloor>)))
            (nat (max 0 (2 - \<lfloor>0.2 * real_of_int (min 5 6)\<rfloor>)))
            (nat (min (int 10) (2 + 5 + \<lfloor>0.2 * real_of_int (min 5 6)\<rfloor>)))) \<and>
    (\<exists>aligned. align_face sample_ext sample_image (2, 3, 5, 6) = Inr aligned \<and>
        has_shape aligned 112 112)) \<and>
   padded_region sample_image (2, 3, 5, 6) = (1, 2, 8, 10)"
proof -
  have h: "has_shape sample_image 10 10 \<and> (0::int) < 5 \<and> (0::int) < 6 \<and> (0::int) \<le> 2 \<and>
    (2::int) + 5 \<le> int 10 \<and> (0::int) \<le> 3 \<and> (3::int) + 6 \<le> int 10"
    using sample_image_shape by simp
  have c: "padded_region sample_image (2, 3, 5, 6) =
       (max 0 (2 - \<lfloor>0.2 * real_of_int (min 5 6)\<rfloor>), max 0 (3 - \<lfloor>0.2 * real_of_int (min 5 6)\<rfloor>),
        min (int 10) (2 + 5 + \<lfloor>0.2 * real_of_int (min 5 6)\<rfloor>),
        min (int 10) (3 + 6 + \<lfloor>0.2 * real_of_int (min 5 6)\<rfloor>)) \<and>
     align_face sample_ext sample_image (2, 3, 5, 6) =
       cv2_resize_112 sample_ext
         (sub_image sample_image (nat (max 0 (3 - \<lfloor>0.2 * real_of_int (min 5 6)\<rfloor>)))
            (nat (min (int 10) (3 + 6 + \<lfloor>0.2 * real_of_int (min 5 6)\<rfloor>)))
            (nat (max 0 (2 - \<lfloor>0.2 * real_of_int (min 5 6)\<rfloor>)))
            (nat (min (int 10) (2 + 5 + \<lfloor>0.2 * real_of_int (min 5 6)\<rfloor>)))) \<and>
     (\<exists>aligned. align_face sample_ext sample_image (2, 3, 5, 6) = Inr aligned \<and>
        has_shape aligned 112 112)"
    by (rule align_face_pads_clamps_resizes[OF sample_image_shape]) simp_all
  have v: "padded_region sample_image (2, 3, 5, 6) = (1, 2, 8, 10)"
    by (simp add: padded_region_def shape0_has_shape[OF sample_image_shape]
          shape1_has_shape[OF sample_image_shape] py_int_def)
  show ?thesis by (rule conjI[OF h conjI[OF c v]])
qed

subsection \<open>The tensor preprocessor\<close>

lemma has_shape_not_empty: "has_shape a H W \<Longrightarrow> 0 < H \<Longrightarrow> 0 < W \<Longrightarrow> \<not> mat_empty a"
  using shape1_has_shape[of a H W] shape0_has_shape[of a H W] by (simp add: mat_empty_def)

lemma has_shape_nth: "has_shape a H W \<Longrightarrow> r < H \<Longrightarrow> length (a ! r) = W"
  by (auto simp: has_shape_def list_all_length)

lemma channel_map_px_swap:
  "k < 3 \<Longrightarrow> channel k (map_px g (map_px f (case p of (b, g, r) \<Rightarrow> (r, g, b)))) = g (f (channel (2 - k) p))"
  by (cases p) (auto simp: channel_def map_px_def)

lemma upt_3: "[0..<3] = [0, 1, 2]"
  by (simp add: upt_rec)

lemma preprocess_face_eq:
  assumes "\<not> mat_empty face"
  shows "preprocess_face face =
           Inr [map (\<lambda>k. map (map (\<lambda>p. (real (unat (channel (2 - k) p)) / 255 - 0.5) / 0.5)) face) [0..<3]]"
  using assms
  by (simp add: preprocess_face_def cvtColor_BGR2RGB_def transpose_hwc_chw_def upt_3
        channel_map_px_swap comp_def)

lemma byte_scaled_range: "- 1 \<le> (real (unat (v :: byte)) / 255 - 0.5) / 0.5 \<and> (real (unat v) / 255 - 0.5) / 0.5 \<le> 1"
proof -
  have "unat v < 2 ^ 8" using unsigned_less[of v, where ?'a = nat] by simp
  then have "unat v \<le> 255" by simp
  then have "real (unat v) \<le> real 255" by (rule of_nat_mono)
  moreover have "0 \<le> real (unat v)" by (rule of_nat_0_le_iff)
  ultimately show ?thesis by simp
qed

lemma byte_scaled_back: "((real (unat (v :: byte)) / 255 - 0.5) / 0.5 * 0.5 + 0.5) * 255 = real (unat v)"
  by (simp add: field_simps)

lemma byte_value_range: "0 \<le> real (unat (v :: byte)) \<and> real (unat v) \<le> 255"
proof -
  have "unat v < 2 ^ 8" using unsigned_less[of v, where ?'a = nat] by simp
  then have "unat v \<le> 255" by simp
  then have "real (unat v) \<le> real 255" by (rule of_nat_mono)
  moreover have "0 \<le> real (unat v)" by (rule of_nat_0_le_iff)
  ultimately show ?thesis by simp
qed

lemma preprocess_shape:
  assumes "has_shape face 112 112"
  shows "tensor_shape_ok [map (\<lambda>k. map (map (f k)) face) [0..<3]]"
  using assms by (simp add: tensor_shape_ok_def has_shape_def list_all_iff)

lemma preprocess_range:
  "tensor_in_range [map (\<lambda>k. map (map (\<lambda>p. (real (unat (channel (2 - k) p :: byte)) / 255 - 0.5) / 0.5)) face) [0..<3]]"
  using byte_scaled_range by (simp add: tensor_in_range_def list_all_iff)

lemma unpreprocess_roundtrip:
  assumes "has_shape face 112 112"
  shows "spec_unpreprocess [map (\<lambda>k. map (map (\<lambda>p. (real (unat (channel (2 - k) p :: byte)) / 255 - 0.5) / 0.5)) face) [0..<3]]
         = map (map (map_px (\<lambda>v. real (unat v)))) face"
proof -
  have len: "length face = 112" and rows: "\<And>r. r < 112 \<Longrightarrow> length (face ! r) = 112"
    using assms has_shape_nth[OF assms] by (auto simp: has_shape_def)
  have px: "\<And>p :: pixel. (real (unat (channel 0 p)), real (unat (channel 1 p)), real (unat (channel 2 p)))
              = map_px (\<lambda>v. real (unat v)) p"
    by (auto simp: channel_def map_px_def split: prod.splits)
  have planes: "spec_unpreprocess [map (\<lambda>k. map (map (\<lambda>p. (real (unat (channel (2 - k) p :: byte)) / 255 - 0.5) / 0.5)) face) [0..<3]]
     = transpose_chw_hwc (map (\<lambda>k. map (map (\<lambda>p. real (unat (channel k p)))) face) [0..<3])"
    by (simp add: spec_unpreprocess_def upt_3 comp_def field_simps)
  show ?thesis
    unfolding planes
  proof (rule nth_equalityI)
    show "length (transpose_chw_hwc (map (\<lambda>k. map (map (\<lambda>p. real (unat (channel k p)))) face) [0..<3]))
        = length (map (map (map_px (\<lambda>v. real (unat v)))) face)"
      by (simp add: transpose_chw_hwc_def upt_3)
  next
    fix r assume "r < length (transpose_chw_hwc (map (\<lambda>k. map (map (\<lambda>p. real (unat (channel k p)))) face) [0..<3]))"
    then have r: "r < length face" by (simp add: transpose_chw_hwc_def upt_3)
    show "transpose_chw_hwc (map (\<lambda>k. map (map (\<lambda>p. real (unat (channel k p)))) face) [0..<3]) ! r
        = map (map (map_px (\<lambda>v. real (unat v)))) face ! r"
      using r px by (intro nth_equalityI) (simp_all add: transpose_chw_hwc_def upt_3)
  qed
qed

lemma sample_face_shape: "has_shape sample_face 112 112"
  by (simp add: sample_face_def has_shape_def list_all_iff)

text \<open>
  C7. For a face of 112 rows and 112 columns, \<open>preprocess_face\<close> returns (it does not
  raise) the tensor whose entry at channel \<open>k\<close>, row \<open>r\<close>, column \<open>c\<close> is
  \<open>(v / 255 - 0.5) / 0.5\<close> for \<open>v\<close> the value of BGR channel \<open>2 - k\<close> of the pixel at
  \<open>(r, c)\<close>: RGB order, channels first, one batch. The tensor has shape
  \<open>(1, 3, 112, 112)\<close>, its values lie in \<open>[-1, 1]\<close>, and undoing the steps
  (\<open>x * 0.5 + 0.5\<close>, times 255, RGB to BGR, transposing back) gives the pixel values
  of the input.
\<close>

theorem preprocess_face_tensor_roundtrip:
  assumes "has_shape face 112 112"
  shows "\<exists>t. preprocess_face face = Inr t \<and>
           t = [map (\<lambda>k. map (map (\<lambda>p. (real (unat (channel (2 - k) p)) / 255 - 0.5) / 0.5)) face) [0..<3]] \<and>
           tensor_shape_ok t \<and> tensor_in_range t \<and>
           spec_unpreprocess t = map (map (map_px (\<lambda>v. real (unat v)))) face"
proof -
  have ne: "\<not> mat_empty face" using assms by (rule has_shape_not_empty) simp_all
  let ?t = "[map (\<lambda>k. map (map (\<lambda>p. (real (unat (channel (2 - k) p)) / 255 - 0.5) / 0.5)) face) [0..<3]]"
  have "preprocess_face face = Inr ?t \<and> ?t = ?t \<and> tensor_shape_ok ?t \<and> tensor_in_range ?t \<and>
        spec_unpreprocess ?t = map (map (map_px (\<lambda>v. real (unat v)))) face"
    using preprocess_face_eq[OF ne] preprocess_shape[OF assms] preprocess_range
      unpreprocess_roundtrip[OF assms]
    by simp
  then show ?thesis by (rule exI[where x = ?t])
qed

theorem preprocess_face_tensor_roundtrip_witness:
  "has_shape sample_face 112 112 \<and>
   (\<exists>t. preprocess_face sample_face = Inr t \<and>
           t = [map (\<lambda>k. map (map (\<lambda>p. (real (unat (channel (2 - k) p)) / 255 - 0.5) / 0.5)) sample_face) [0..<3]] \<and>
           tensor_shape_ok t \<and> tensor_in_range t \<and>
           spec_unpreprocess t = map (map (map_px (\<lambda>v. real (unat v)))) sample_face)"
  by (rule conjI[OF sample_face_shape preprocess_face_tensor_roundtrip[OF sample_face_shape]])

subsection \<open>The quality scorer\<close>

lemma sum_list_bounds:
  "\<forall>x\<in>set xs. a \<le> x \<and> x \<le> b \<Longrightarrow>
     real (length xs) * a \<le> sum_list xs \<and> sum_list xs \<le> real (length xs) * b"
  by (induction xs) (auto simp: algebra_simps)

lemma np_mean_bounds:
  assumes "\<forall>x\<in>set xs. 0 \<le> x \<and> x \<le> b" and "0 \<le> b"
  shows "0 \<le> np_mean xs \<and> np_mean xs \<le> b"
proof (cases "xs = []")
  case True
  then show ?thesis using assms by (simp add: np_mean_def)
next
  case False
  then have pos: "0 < real (length xs)" by simp
  from sum_list_bounds[OF assms(1)] pos show ?thesis
    by (simp add: np_mean_def field_simps)
qed

lemma np_var_nonneg: "0 \<le> np_var xs"
proof -
  have "0 \<le> sum_list (map (\<lambda>v. \<bar>v - np_mean xs\<bar> ^ 2) xs)"
    by (rule sum_list_nonneg) auto
  then show ?thesis by (simp add: np_var_def np_mean_def)
qed

lemma np_std_nonneg: "0 \<le> np_std xs"
  by (simp add: np_std_def np_var_nonneg)

lemma gray_mean_bounds: "0 \<le> np_mean (gray_values gray) \<and> np_mean (gray_values gray) \<le> 255"
proof (rule np_mean_bounds)
  show "\<forall>x\<in>set (gray_values gray). 0 \<le> x \<and> x \<le> 255"
    using byte_value_range by (auto simp: gray_values_def)
qed simp

lemma quality_formula_eq:
  "quality_formula l m s = 0.5 * min (l / 1000) 1 + 0.3 * (1 - \<bar>m - 128\<bar> / 128) + 0.2 * min (s / 64) 1"
  by (simp add: quality_formula_def Let_def)

lemma quality_formula_range:
  assumes "0 \<le> l" "0 \<le> m" "m \<le> 255" "0 \<le> s"
  shows "0 \<le> quality_formula l m s \<and> quality_formula l m s \<le> 1"
proof -
  have a: "0 \<le> min (l / 1000) 1" "min (l / 1000) 1 \<le> 1" using assms by auto
  have b: "0 \<le> 1 - \<bar>m - 128\<bar> / 128" "1 - \<bar>m - 128\<bar> / 128 \<le> 1" using assms by auto
  have c: "0 \<le> min (s / 64) 1" "min (s / 64) 1 \<le> 1" using assms by auto
  have lo: "0 \<le> 0.5 * min (l / 1000) 1 + 0.3 * (1 - \<bar>m - 128\<bar> / 128) + 0.2 * min (s / 64) 1"
    using a(1) b(1) c(1) by (intro add_nonneg_nonneg mult_nonneg_nonneg) simp_all
  have hi: "0.5 * min (l / 1000) 1 + 0.3 * (1 - \<bar>m - 128\<bar> / 128) + 0.2 * min (s / 64) 1
              \<le> 0.5 * 1 + 0.3 * 1 + 0.2 * (1::real)"
    using a(2) b(2) c(2) by (intro add_mono mult_left_mono) simp_all
  show ?thesis unfolding quality_formula_eq using lo hi by simp
qed

text \<open>
  C6. For a face of 112 rows and 112 columns, \<open>assess_face_quality\<close> returns
  \<open>0.5 * min(laplacian_variance / 1000, 1) + 0.3 * (1 - |mean_gray - 128| / 128) +
  0.2 * min(std_gray / 64, 1)\<close>, the three statistics being taken of the grayscale
  conversion of the face, and this value lies in \<open>[0, 1]\<close>.
\<close>

theorem assess_face_quality_formula_range:
  fixes ext :: externals and face :: image
  defines "gray \<equiv> map (map (gray_of ext)) face"
  defines "laplacian_variance \<equiv> np_var (concat (cv2_Laplacian ext gray))"
  defines "mean_gray \<equiv> np_mean (gray_values gray)"
  defines "std_gray \<equiv> np_std (gray_values gray)"
  defines "score \<equiv> 0.5 * min (laplacian_variance / 1000) 1 + 0.3 * (1 - \<bar>mean_gray - 128\<bar> / 128)
                    + 0.2 * min (std_gray / 64) 1"
  assumes "has_shape face 112 112"
  shows "assess_face_quality ext face = Inr score \<and> 0 \<le> score \<and> score \<le> 1"
proof -
  have ne: "\<not> mat_empty face" using assms(6) by (rule has_shape_not_empty) simp_all
  have sc: "score = quality_formula laplacian_variance mean_gray std_gray"
    by (simp only: score_def quality_formula_eq)
  have eq: "assess_face_quality ext face = Inr score"
    using ne
    by (simp add: assess_face_quality_def cvtColor_BGR2GRAY_def Let_def sc
          laplacian_variance_def mean_gray_def std_gray_def gray_def)
  have "0 \<le> score \<and> score \<le> 1"
    unfolding sc laplacian_variance_def mean_gray_def std_gray_def
    using gray_mean_bounds[of gray] by (intro quality_formula_range np_var_nonneg np_std_nonneg) auto
  with eq show ?thesis by simp
qed

theorem assess_face_quality_formula_range_witness:
  "has_shape sample_face 112 112 \<and>
   (assess_face_quality sample_ext sample_face =
      Inr (0.5 * min (np_var (concat (cv2_Laplacian sample_ext (map (map (gray_of sample_ext)) sample_face))) / 1000) 1
           + 0.3 * (1 - \<bar>np_mean (gray_values (map (map (gray_of sample_ext)) sample_face)) - 128\<bar> / 128)
           + 0.2 * min (np_std (gray_values (map (map (gray_of sample_ext)) sample_face)) / 64) 1) \<and>
    0 \<le> 0.5 * min (np_var (concat (cv2_Laplacian sample_ext (map (map (gray_of sample_ext)) sample_face))) / 1000) 1
           + 0.3 * (1 - \<bar>np_mean (gray_values (map (map (gray_of sample_ext)) sample_face)) - 128\<bar> / 128)
           + 0.2 * min (np_std (gray_values (map (map (gray_of sample_ext)) sample_face)) / 64) 1 \<and>
    0.5 * min (np_var (concat (cv2_Laplacian sample_ext (map (map (gray_of sample_ext)) sample_face))) / 1000) 1
           + 0.3 * (1 - \<bar>np_mean (gray_values (map (map (gray_of sample_ext)) sample_face)) - 128\<bar> / 128)
           + 0.2 * min (np_std (gray_values (map (map (gray_of sample_ext)) sample_face)) / 64) 1 \<le> 1)"
  by (rule conjI[OF sample_face_shape assess_face_quality_formula_range[OF sample_face_shape]])

subsection \<open>Steps of the orchestrator\<close>






lemma assess_face_quality_ok:
  "\<not> mat_empty face \<Longrightarrow> \<exists>q. assess_face_quality ext face = Inr q"
  by (simp add: assess_face_quality_def cvtColor_BGR2GRAY_def Let_def)



lemma sample_decode: "decode_image sample_ext ''/9j/4A=='' = Inr sample_image"
  by (simp add: decode_image_def b64decode_def is_ascii_def table_a2b_base64_def sample_ext_def)



subsection \<open>The payload: a data-URI prefix is not stripped\<close>

lemma a2b_loop_append_out:
  "a2b_loop s q l p out1 = Inr r \<Longrightarrow> \<exists>r'. r = out1 @ r' \<and> (\<forall>out2. a2b_loop s q l p out2 = Inr (out2 @ r'))"
proof (induction s arbitrary: q l p out1 r)
  case Nil
  then show ?case by (auto split: if_splits)
next
  case (Cons c cs)
  show ?case
  proof (cases "c = CHR ''=''")
    case True
    show ?thesis
    proof (cases "q \<ge> 2 \<and> q + (p + 1) \<ge> 4")
      case t: True
      with True Cons.prems show ?thesis by auto
    next
      case False
      with True Cons.prems
      have "a2b_loop cs q l (if q \<ge> 2 then p + 1 else p) out1 = Inr r"
        by (auto split: if_splits)
      from Cons.IH[OF this] False True show ?thesis by (auto split: if_splits)
    qed
  next
    case False
    show ?thesis
    proof (cases "table_a2b_base64 c")
      case None
      with False Cons.prems have "a2b_loop cs q l p out1 = Inr r" by simp
      from Cons.IH[OF this] False None show ?thesis by simp
    next
      case (Some ch)
      consider "q = 0" | "q = 1" | "q = 2" | "q \<noteq> 0 \<and> q \<noteq> 1 \<and> q \<noteq> 2" by blast
      then show ?thesis
      proof cases
        case 1
        with False Some Cons.prems have "a2b_loop cs 1 ch 0 out1 = Inr r" by simp
        from Cons.IH[OF this] False Some 1 show ?thesis by simp
      next
        case 2
        with False Some Cons.prems
        have "a2b_loop cs 2 (ch AND 0x0f) 0 (out1 @ [push_bit 2 l OR drop_bit 4 ch]) = Inr r" by simp
        from Cons.IH[OF this] obtain r' where
          "r = (out1 @ [push_bit 2 l OR drop_bit 4 ch]) @ r'"
          "\<forall>out2. a2b_loop cs 2 (ch AND 0x0f) 0 out2 = Inr (out2 @ r')" by blast
        with False Some 2 show ?thesis by simp
      next
        case 3
        with False Some Cons.prems
        have "a2b_loop cs 3 (ch AND 0x03) 0 (out1 @ [push_bit 4 l OR drop_bit 2 ch]) = Inr r" by simp
        from Cons.IH[OF this] obtain r' where
          "r = (out1 @ [push_bit 4 l OR drop_bit 2 ch]) @ r'"
          "\<forall>out2. a2b_loop cs 3 (ch AND 0x03) 0 out2 = Inr (out2 @ r')" by blast
        with False Some 3 show ?thesis by simp
      next
        case 4
        with False Some Cons.prems
        have "a2b_loop cs 0 0 0 (out1 @ [push_bit 6 l OR ch]) = Inr r" by simp
        from Cons.IH[OF this] obtain r' where
          "r = (out1 @ [push_bit 6 l OR ch]) @ r'"
          "\<forall>out2. a2b_loop cs 0 0 0 out2 = Inr (out2 @ r')" by blast
        with False Some 4 show ?thesis by simp
      qed
    qed
  qed
qed

lemma a2b_loop_prefix:
  "a2b_loop (data_uri_prefix @ s) 0 0 0 [] = a2b_loop s 0 0 0 data_uri_junk"
  by (simp add: data_uri_prefix_def data_uri_junk_def table_a2b_base64_def)

lemma prefix_ascii: "list_all is_ascii data_uri_prefix"
  by (simp add: data_uri_prefix_def is_ascii_def)

theorem b64decode_keeps_data_uri_prefix:
  assumes "b64decode s = Inr bytes"
  shows "b64decode (data_uri_prefix @ s) = Inr (data_uri_junk @ bytes)"
proof -
  from assms have asc: "list_all is_ascii s" and loop: "a2b_loop s 0 0 0 [] = Inr bytes"
    by (auto simp: b64decode_def split: if_splits)
  from a2b_loop_append_out[OF loop] have "a2b_loop s 0 0 0 data_uri_junk = Inr (data_uri_junk @ bytes)"
    by auto
  then show ?thesis using asc prefix_ascii by (simp add: b64decode_def a2b_loop_prefix)
qed

lemma junk_changes_bytes: "data_uri_junk @ bytes \<noteq> bytes"
  by (simp add: data_uri_junk_def)

lemma sample_b64: "b64decode ''/9j/4A=='' = Inr [255, 216, 255, 224]"
  by (simp add: b64decode_def is_ascii_def table_a2b_base64_def)

lemma sample_prefixed_fails:
  "decode_image sample_ext (data_uri_prefix @ ''/9j/4A=='') = Inl (Exc ''ValueError'' ''Failed to decode image'')"
proof -
  have "imdecode sample_ext (data_uri_junk @ [255, 216, 255, 224]) = Inr None"
    by (simp add: sample_ext_def data_uri_junk_def)
  then show ?thesis
    using b64decode_keeps_data_uri_prefix[OF sample_b64] by (simp add: decode_image_def)
qed

text \<open>
  C4, what the code does. \<open>process_image\<close> hands the payload to \<open>b64decode\<close> as it
  is. For a payload \<open>s\<close> that decodes to \<open>bytes\<close>, the payload
  \<open>data:image/jpeg;base64,\<close> followed by \<open>s\<close> decodes to 15 spurious bytes followed
  by \<open>bytes\<close>, so the image decoder is given a different buffer, one that does not
  start with the image's signature. The docstring of \<open>process_image\<close> promises both
  forms of input; the sample decoder, which like OpenCV looks for the JPEG signature
  at the start of the buffer, decodes the bare payload and rejects the prefixed one.
\<close>

theorem decode_image_keeps_data_uri_prefix:
  assumes "b64decode s = Inr bytes"
  shows "b64decode (data_uri_prefix @ s) = Inr (data_uri_junk @ bytes) \<and>
         data_uri_junk @ bytes \<noteq> bytes \<and>
         decode_image ext s =
           (case imdecode ext bytes of
              Inl e \<Rightarrow> Inl e
            | Inr None \<Rightarrow> Inl (Exc ''ValueError'' ''Failed to decode image'')
            | Inr (Some img) \<Rightarrow> Inr img) \<and>
         decode_image ext (data_uri_prefix @ s) =
           (case imdecode ext (data_uri_junk @ bytes) of
              Inl e \<Rightarrow> Inl e
            | Inr None \<Rightarrow> Inl (Exc ''ValueError'' ''Failed to decode image'')
            | Inr (Some img) \<Rightarrow> Inr img)"
  using assms b64decode_keeps_data_uri_prefix[OF assms] junk_changes_bytes
  by (simp add: decode_image_def)

theorem decode_image_keeps_data_uri_prefix_witness:
  "b64decode ''/9j/4A=='' = Inr [255, 216, 255, 224] \<and>
   b64decode (data_uri_prefix @ ''/9j/4A=='') = Inr (data_uri_junk @ [255, 216, 255, 224]) \<and>
   decode_image sample_ext ''/9j/4A=='' = Inr sample_image \<and>
   decode_image sample_ext (data_uri_prefix @ ''/9j/4A=='') = Inl (Exc ''ValueError'' ''Failed to decode image'') \<and>
   process_image sample_ext 0 1 (data_uri_prefix @ ''/9j/4A=='') False = NotDetected ''Failed to decode image'' 1"
proof -
  have p: "process_image sample_ext 0 1 (data_uri_prefix @ ''/9j/4A=='') False = NotDetected ''Failed to decode image'' 1"
    using sample_prefixed_fails by (simp add: process_image_def process_body_def str_exc_def)
  show ?thesis
    using sample_b64 decode_image_keeps_data_uri_prefix[OF sample_b64, of sample_ext]
      sample_decode sample_prefixed_fails p
    by simp
qed

subsection \<open>The result does not depend on the clock\<close>

lemma layout_metrics_time:
  "layout_metrics img f elapsed =
     (case layout_metrics img f 0 of Inl e \<Rightarrow> Inl e | Inr m \<Rightarrow> Inr (m\<lparr>processing_time := elapsed\<rparr>))"
  by (cases f) (simp add: layout_metrics_def Let_def)

lemma process_body_time:
  "process_body ext t0 t1 s f =
     (case process_body ext 0 0 s f of Inl e \<Rightarrow> Inl e | Inr r \<Rightarrow> Inr (with_time (t1 - t0) r))"
proof (cases "decode_image ext s")
  case (Inl e)
  then show ?thesis by (simp add: process_body_def)
next
  case (Inr img)
  show ?thesis
  proof (cases "detect_faces ext img = []")
    case True
    with Inr show ?thesis by (simp add: process_body_def with_time_def)
  next
    case False
    have lm: "layout_metrics img largest (t1 - t0) =
        (case layout_metrics img largest (0 - 0) of Inl e \<Rightarrow> Inl e
         | Inr m \<Rightarrow> Inr (m\<lparr>processing_time := t1 - t0\<rparr>))" for largest
      using layout_metrics_time[of img largest "t1 - t0"] by simp
    from Inr False show ?thesis
      by (simp add: process_body_def Let_def with_time_def lm split: sum.split)
  qed
qed

lemma process_image_time:
  "process_image ext t0 t1 s f = with_time (t1 - t0) (process_image ext 0 0 s f)"
  unfolding process_image_def
  by (subst process_body_time) (simp add: with_time_def split: sum.split)

lemma with_time_fields:
  "result_embedding (with_time t r) = result_embedding r"
  "result_bbox (with_time t r) = result_bbox r"
  "result_quality (with_time t r) = result_quality r"
  "result_time (with_time t r) = t"
  by (cases r; simp add: with_time_def result_embedding_def result_bbox_def result_quality_def
        result_time_def)+

text \<open>
  Two calls on the same payload and flag, at any clock readings, return results that
  are equal up to \<open>processing_time\<close>: the embedding, the bbox and the quality score do
  not depend on the clock.
\<close>

lemma process_image_clock_independent:
  "result_embedding (process_image ext t0 t1 image_data return_face_image) =
     result_embedding (process_image ext t0' t1' image_data return_face_image) \<and>
   result_bbox (process_image ext t0 t1 image_data return_face_image) =
     result_bbox (process_image ext t0' t1' image_data return_face_image) \<and>
   result_quality (process_image ext t0 t1 image_data return_face_image) =
     result_quality (process_image ext t0' t1' image_data return_face_image) \<and>
   process_image ext t0 t1 image_data return_face_image =
     with_time (t1 - t0) (process_image ext t0' t1' image_data return_face_image)"
proof -
  have a: "process_image ext t0 t1 image_data return_face_image =
      with_time (t1 - t0) (process_image ext 0 0 image_data return_face_image)"
    by (rule process_image_time)
  have b: "process_image ext t0' t1' image_data return_face_image =
      with_time (t1' - t0') (process_image ext 0 0 image_data return_face_image)"
    by (rule process_image_time)
  have c: "with_time u (with_time v r) = with_time u r" for u v r
    by (cases r) (simp_all add: with_time_def)
  show ?thesis unfolding a b by (simp add: with_time_fields c)
qed

subsection \<open>Faults at the orchestrator boundary\<close>

lemma process_image_fault:
  "process_body ext t0 t1 s f = Inl e \<Longrightarrow>
   process_image ext t0 t1 s f = NotDetected (str_exc e) (t1 - t0)"
  by (simp add: process_image_def)

lemma detect_faces_fault:
  "cvtColor_BGR2GRAY ext img = Inl e \<or>
   (\<exists>gray. cvtColor_BGR2GRAY ext img = Inr gray \<and> detectMultiScale ext gray = Inl e)
   \<Longrightarrow> detect_faces ext img = []"
  by (auto simp: detect_faces_def)

lemma process_image_no_face:
  "decode_image ext s = Inr img \<Longrightarrow> detect_faces ext img = [] \<Longrightarrow>
   process_image ext t0 t1 s f = NotDetected ''No face detected in image'' (t1 - t0)"
  by (simp add: process_image_def process_body_def)

lemma aligned_steps_ok:
  assumes "align_face ext img face = Inr aligned"
  shows "\<exists>quality face_input. assess_face_quality ext aligned = Inr quality \<and>
           preprocess_face aligned = Inr face_input"
proof -
  obtain x1 y1 x2 y2 where "padded_region img face = (x1, y1, x2, y2)"
    by (cases "padded_region img face") auto
  with assms have "cv2_resize_112 ext (crop img y1 y2 x1 x2) = Inr aligned"
    by (simp add: align_face_def)
  then have "has_shape aligned 112 112" by (rule resize_shape)
  then have ne: "\<not> mat_empty aligned" by (rule has_shape_not_empty) simp_all
  from assess_face_quality_ok[OF ne] preprocess_face_eq[OF ne] show ?thesis by blast
qed

lemma result_time_process_image: "result_time (process_image ext t0 t1 s f) = t1 - t0"
  by (subst process_image_time) (simp add: with_time_fields)

lemma decode_image_cong: "imdecode ext = imdecode ext' \<Longrightarrow> decode_image ext s = decode_image ext' s"
  by (auto simp: decode_image_def split: sum.splits)

lemma sample_bad_payload:
  "decode_image sample_ext ''abc'' = Inl (Exc ''binascii.Error'' ''Incorrect padding'')"
  by (simp add: decode_image_def b64decode_def is_ascii_def table_a2b_base64_def)

lemma cascade_fault_decode: "decode_image cascade_fault_ext ''/9j/4A=='' = Inr sample_image"
  using decode_image_cong[of cascade_fault_ext sample_ext] sample_decode
  by (simp add: cascade_fault_ext_def)

lemma cascade_fault_raises:
  "cvtColor_BGR2GRAY cascade_fault_ext sample_image =
     Inr (map (map (gray_of cascade_fault_ext)) sample_image) \<and>
   detectMultiScale cascade_fault_ext (map (map (gray_of cascade_fault_ext)) sample_image) =
     Inl (Exc ''cv2.error'' ''cascade failed'')"
  using has_shape_not_empty[OF sample_image_shape]
  by (simp add: cvtColor_BGR2GRAY_def cascade_fault_ext_def)

lemma far_box_decode: "decode_image far_box_ext ''/9j/4A=='' = Inr sample_image"
  using decode_image_cong[of far_box_ext sample_ext] sample_decode
  by (simp add: far_box_ext_def)

lemma far_box_detect: "detect_faces far_box_ext sample_image = [(20, 20, 5, 5)]"
  using has_shape_not_empty[OF sample_image_shape]
  by (simp add: detect_faces_def cvtColor_BGR2GRAY_def far_box_ext_def)

lemma far_box_align:
  "align_face far_box_ext sample_image (20, 20, 5, 5) = Inl (cv2_error ''resize'')"
proof -
  have r: "padded_region sample_image (20, 20, 5, 5) = (19, 19, 10, 10)"
    by (simp add: padded_region_def shape0_has_shape[OF sample_image_shape]
          shape1_has_shape[OF sample_image_shape] py_int_def)
  have l: "length sample_image = 10" by (simp add: sample_image_def)
  have c: "crop sample_image 19 10 19 10 = []"
    by (simp add: crop_def py_slice_def slice_index_def l)
  show ?thesis
    by (simp add: align_face_def r c cv2_resize_112_def mat_empty_def shape0_def)
qed

lemma model_fault_decode: "decode_image model_fault_ext ''/9j/4A=='' = Inr sample_image"
  using decode_image_cong[of model_fault_ext sample_ext] sample_decode
  by (simp add: model_fault_ext_def)

lemma model_fault_detect: "detect_faces model_fault_ext sample_image = [(2, 3, 5, 6)]"
  using has_shape_not_empty[OF sample_image_shape]
  by (simp add: detect_faces_def cvtColor_BGR2GRAY_def model_fault_ext_def sample_ext_def)

lemma model_fault_align: "\<exists>aligned. align_face model_fault_ext sample_image (2, 3, 5, 6) = Inr aligned"
proof -
  have "\<exists>aligned. align_face model_fault_ext sample_image (2, 3, 5, 6) = Inr aligned \<and>
          has_shape aligned 112 112"
    by (rule align_face_in_bounds[OF sample_image_shape, THEN conjunct2, THEN conjunct2,
          THEN conjunct2]) simp_all
  then show ?thesis by blast
qed

lemma model_fault_embedding:
  "get_embedding model_fault_ext t = Inl (Exc ''RuntimeError'' ''inference failed'')"
  by (simp add: get_embedding_def model_fault_ext_def)

lemma largest_single: "largest_face [b] = Inr b"
  by (simp add: largest_face_def py_max_def)

text \<open>
  C1, as the code behaves. \<open>process_image\<close> always returns a result record, and the
  record always carries the elapsed time \<open>t1 - t0\<close>. A fault raised by the body of
  the \<open>try\<close> block becomes a negative result whose \<open>error\<close> is \<open>str(e)\<close>; this is
  so for a fault of decoding, of alignment and of the embedding step, while scoring
  and preprocessing do not raise on an aligned face. A fault raised inside detection
  is not converted at this boundary: \<open>detect_faces\<close> catches it itself and returns
  the empty list, so the result is the ordinary negative result
  \<open>No face detected in image\<close> and the fault's description is not reported.
\<close>

theorem process_image_converts_faults:
  "result_time (process_image ext t0 t1 s f) = t1 - t0 \<and>
   (process_body ext t0 t1 s f = Inl e \<longrightarrow>
      process_image ext t0 t1 s f = NotDetected (str_exc e) (t1 - t0)) \<and>
   (decode_image ext s = Inl e \<longrightarrow>
      process_image ext t0 t1 s f = NotDetected (str_exc e) (t1 - t0)) \<and>
   (decode_image ext s = Inr img \<and>
    (cvtColor_BGR2GRAY ext img = Inl e \<or>
     (\<exists>gray. cvtColor_BGR2GRAY ext img = Inr gray \<and> detectMultiScale ext gray = Inl e)) \<longrightarrow>
      detect_faces ext img = [] \<and>
      process_image ext t0 t1 s f = NotDetected ''No face detected in image'' (t1 - t0)) \<and>
   (decode_image ext s = Inr img \<and> detect_faces ext img \<noteq> [] \<and>
    largest_face (detect_faces ext img) = Inr face \<and> align_face ext img face = Inl e \<longrightarrow>
      process_image ext t0 t1 s f = NotDetected (str_exc e) (t1 - t0)) \<and>
   (decode_image ext s = Inr img \<and> detect_faces ext img \<noteq> [] \<and>
    largest_face (detect_faces ext img) = Inr face \<and> align_face ext img face = Inr aligned \<longrightarrow>
      (\<exists>quality face_input.
         assess_face_quality ext aligned = Inr quality \<and>
         preprocess_face aligned = Inr face_input \<and>
         (get_embedding ext face_input = Inl e \<longrightarrow>
            process_image ext t0 t1 s f = NotDetected (str_exc e) (t1 - t0))))"
proof (intro conjI impI)
  show "result_time (process_image ext t0 t1 s f) = t1 - t0"
    by (rule result_time_process_image)
next
  assume "process_body ext t0 t1 s f = Inl e"
  then show "process_image ext t0 t1 s f = NotDetected (str_exc e) (t1 - t0)"
    by (rule process_image_fault)
next
  assume "decode_image ext s = Inl e"
  then show "process_image ext t0 t1 s f = NotDetected (str_exc e) (t1 - t0)"
    by (simp add: process_image_def process_body_def)
next
  assume a: "decode_image ext s = Inr img \<and>
    (cvtColor_BGR2GRAY ext img = Inl e \<or>
     (\<exists>gray. cvtColor_BGR2GRAY ext img = Inr gray \<and> detectMultiScale ext gray = Inl e))"
  then show d: "detect_faces ext img = []" using detect_faces_fault by blast
  from a d show "process_image ext t0 t1 s f = NotDetected ''No face detected in image'' (t1 - t0)"
    using process_image_no_face by blast
next
  assume "decode_image ext s = Inr img \<and> detect_faces ext img \<noteq> [] \<and>
    largest_face (detect_faces ext img) = Inr face \<and> align_face ext img face = Inl e"
  then show "process_image ext t0 t1 s f = NotDetected (str_exc e) (t1 - t0)"
    by (simp add: process_image_def process_body_def)
next
  assume a: "decode_image ext s = Inr img \<and> detect_faces ext img \<noteq> [] \<and>
    largest_face (detect_faces ext img) = Inr face \<and> align_face ext img face = Inr aligned"
  then obtain quality face_input
    where q: "assess_face_quality ext aligned = Inr quality"
      and p: "preprocess_face aligned = Inr face_input"
    using aligned_steps_ok by blast
  have "get_embedding ext face_input = Inl e \<longrightarrow>
          process_image ext t0 t1 s f = NotDetected (str_exc e) (t1 - t0)"
    using a q p by (simp add: process_image_def process_body_def)
  with q p show "\<exists>quality face_input.
         assess_face_quality ext aligned = Inr quality \<and>
         preprocess_face aligned = Inr face_input \<and>
         (get_embedding ext face_input = Inl e \<longrightarrow>
            process_image ext t0 t1 s f = NotDetected (str_exc e) (t1 - t0))"
    by blast
qed

theorem process_image_converts_faults_witness:
  "result_time (process_image sample_ext 0 1 ''abc'' False) = 1 - 0 \<and>
   process_image sample_ext 0 1 ''abc'' False = NotDetected ''Incorrect padding'' (1 - 0) \<and>
   process_image cascade_fault_ext 0 1 ''/9j/4A=='' False =
     NotDetected ''No face detected in image'' (1 - 0) \<and>
   process_image far_box_ext 0 1 ''/9j/4A=='' False =
     NotDetected (str_exc (cv2_error ''resize'')) (1 - 0) \<and>
   process_image model_fault_ext 0 1 ''/9j/4A=='' False =
     NotDetected ''inference failed'' (1 - 0)"
proof -
  note th1 = process_image_converts_faults[where ext = sample_ext and ?t0.0 = 0 and ?t1.0 = 1
      and s = "''abc''" and f = False and e = "Exc ''binascii.Error'' ''Incorrect padding''"]
  have a: "result_time (process_image sample_ext 0 1 ''abc'' False) = 1 - 0"
    by (rule th1[THEN conjunct1])
  have b: "process_image sample_ext 0 1 ''abc'' False = NotDetected ''Incorrect padding'' (1 - 0)"
    using th1[THEN conjunct2, THEN conjunct2, THEN conjunct1, THEN mp, OF sample_bad_payload]
    by (simp add: str_exc_def)
  note th2 = process_image_converts_faults[where ext = cascade_fault_ext and ?t0.0 = 0
      and ?t1.0 = 1 and s = "''/9j/4A==''" and f = False and img = sample_image
      and e = "Exc ''cv2.error'' ''cascade failed''"]
  have h2: "decode_image cascade_fault_ext ''/9j/4A=='' = Inr sample_image \<and>
    (cvtColor_BGR2GRAY cascade_fault_ext sample_image = Inl (Exc ''cv2.error'' ''cascade failed'') \<or>
     (\<exists>gray. cvtColor_BGR2GRAY cascade_fault_ext sample_image = Inr gray \<and>
        detectMultiScale cascade_fault_ext gray = Inl (Exc ''cv2.error'' ''cascade failed'')))"
    using cascade_fault_decode cascade_fault_raises by blast
  have c: "process_image cascade_fault_ext 0 1 ''/9j/4A=='' False =
     NotDetected ''No face detected in image'' (1 - 0)"
    using th2[THEN conjunct2, THEN conjunct2, THEN conjunct2, THEN conjunct1, THEN mp, OF h2]
    by (rule conjunct2)
  note th3 = process_image_converts_faults[where ext = far_box_ext and ?t0.0 = 0
      and ?t1.0 = 1 and s = "''/9j/4A==''" and f = False and img = sample_image
      and face = "(20, 20, 5, 5)" and e = "cv2_error ''resize''"]
  have h3: "decode_image far_box_ext ''/9j/4A=='' = Inr sample_image \<and>
    detect_faces far_box_ext sample_image \<noteq> [] \<and>
    largest_face (detect_faces far_box_ext sample_image) = Inr (20, 20, 5, 5) \<and>
    align_face far_box_ext sample_image (20, 20, 5, 5) = Inl (cv2_error ''resize'')"
    using far_box_decode far_box_align by (simp add: far_box_detect largest_single)
  have d: "process_image far_box_ext 0 1 ''/9j/4A=='' False =
     NotDetected (str_exc (cv2_error ''resize'')) (1 - 0)"
    by (rule th3[THEN conjunct2, THEN conjunct2, THEN conjunct2, THEN conjunct2, THEN conjunct1,
          THEN mp, OF h3])
  obtain aligned where al: "align_face model_fault_ext sample_image (2, 3, 5, 6) = Inr aligned"
    using model_fault_align by blast
  note th4 = process_image_converts_faults[where ext = model_fault_ext and ?t0.0 = 0
      and ?t1.0 = 1 and s = "''/9j/4A==''" and f = False and img = sample_image
      and face = "(2, 3, 5, 6)" and aligned = aligned
      and e = "Exc ''RuntimeError'' ''inference failed''"]
  have h4: "decode_image model_fault_ext ''/9j/4A=='' = Inr sample_image \<and>
    detect_faces model_fault_ext sample_image \<noteq> [] \<and>
    largest_face (detect_faces model_fault_ext sample_image) = Inr (2, 3, 5, 6) \<and>
    align_face model_fault_ext sample_image (2, 3, 5, 6) = Inr aligned"
    using model_fault_decode al by (simp add: model_fault_detect largest_single)
  from th4[THEN conjunct2, THEN conjunct2, THEN conjunct2, THEN conjunct2, THEN conjunct2,
      THEN mp, OF h4]
  obtain quality face_input where
    "get_embedding model_fault_ext face_input = Inl (Exc ''RuntimeError'' ''inference failed'') \<longrightarrow>
       process_image model_fault_ext 0 1 ''/9j/4A=='' False =
         NotDetected (str_exc (Exc ''RuntimeError'' ''inference failed'')) (1 - 0)"
    by blast
  then have e: "process_image model_fault_ext 0 1 ''/9j/4A=='' False =
     NotDetected ''inference failed'' (1 - 0)"
    using model_fault_embedding by (simp add: str_exc_def)
  show ?thesis by (rule conjI[OF a conjI[OF b conjI[OF c conjI[OF d e]]]])
qed

text \<open>
  The claim as the specification states it (a fault of any step, detection included,
  is reported with its description) does not hold: when the cascade raises
  \<open>cascade failed\<close>, the result's error is \<open>No face detected in image\<close>.
\<close>

theorem process_image_detect_fault_counterexample:
  "detectMultiScale cascade_fault_ext (map (map (gray_of cascade_fault_ext)) sample_image) =
     Inl (Exc ''cv2.error'' ''cascade failed'') \<and>
   process_image cascade_fault_ext 0 1 ''/9j/4A=='' False =
     NotDetected ''No face detected in image'' (1 - 0) \<and>
   ''No face detected in image'' \<noteq> str_exc (Exc ''cv2.error'' ''cascade failed'')"
proof -
  have d: "detect_faces cascade_fault_ext sample_image = []"
    using cascade_fault_raises by (intro detect_faces_fault) blast
  have p: "process_image cascade_fault_ext 0 1 ''/9j/4A=='' False =
     NotDetected ''No face detected in image'' (1 - 0)"
    using cascade_fault_decode d by (rule process_image_no_face)
  have n: "''No face detected in image'' \<noteq> str_exc (Exc ''cv2.error'' ''cascade failed'')"
    by (simp add: str_exc_def)
  show ?thesis by (rule conjI[OF cascade_fault_raises[THEN conjunct2] conjI[OF p n]])
qed

subsection \<open>The embedding engine\<close>

lemma rne_zero: "rne 0 = 0"
  by (simp add: rne_def)

lemma f32_zero: "f32 0 = Fin 0"
  by (simp add: f32_def rne_zero)














lemma sumsq_flushed:
  "\<forall>x\<in>set row. np_square x = Fin 0 \<Longrightarrow> foldr np_add (map np_square row) (Fin 0) = Fin 0"
  by (induction row) (simp_all add: f32_zero)

lemma norm_flushed:
  "\<forall>x\<in>set row. np_square x = Fin 0 \<Longrightarrow> linalg_norm row = Fin 0"
  by (simp add: linalg_norm_def sumsq_flushed f32_zero)

lemma normalize_zero:
  assumes "\<forall>x\<in>set row. x = Fin 0"
  shows "linalg_norm row = Fin 0 \<and>
         map (\<lambda>v. np_divide v (Fin 0)) row = replicate (length row) NaN"
proof -
  have "\<forall>x\<in>set row. np_square x = Fin 0" using assms by (auto simp: f32_zero)
  then have n: "linalg_norm row = Fin 0" by (rule norm_flushed)
  have "\<And>i. i < length row \<Longrightarrow> row ! i = Fin 0" using assms by auto
  then have "map (\<lambda>v. np_divide v (Fin 0)) row = replicate (length row) NaN"
    by (intro nth_equalityI) auto
  with n show ?thesis by simp
qed

lemma zero_row_all_zero: "\<forall>x\<in>set (replicate 128 (Fin 0)). x = Fin 0"
  by simp

text \<open>
  C3, as the code behaves. When the row the model returns is all zero, its L2 norm is
  zero and \<open>get_embedding\<close> raises nothing: numpy divides each component by the zero
  norm, \<open>0 / 0\<close> is NaN, and the function returns a vector of NaN of the row's length.
\<close>

theorem get_embedding_zero_norm_returns_nan:
  assumes "session_run ext face_input = Inr (row # rest)"
    and "\<forall>x\<in>set row. x = Fin 0"
  shows "linalg_norm row = Fin 0 \<and>
         get_embedding ext face_input = Inr (replicate (length row) NaN)"
  using assms(1)
  by (simp add: get_embedding_def normalize_zero[OF assms(2), THEN conjunct1]
        normalize_zero[OF assms(2), THEN conjunct2])

theorem get_embedding_zero_norm_returns_nan_witness:
  "session_run zero_model_ext sample_tensor = Inr (replicate 128 (Fin 0) # []) \<and>
   (linalg_norm (replicate 128 (Fin 0)) = Fin 0 \<and>
    get_embedding zero_model_ext sample_tensor = Inr (replicate (length (replicate 128 (Fin 0))) NaN))"
proof -
  have h1: "session_run zero_model_ext sample_tensor = Inr (replicate 128 (Fin 0) # [])"
    by (simp add: zero_model_ext_def)
  show ?thesis
    by (rule conjI[OF h1 get_embedding_zero_norm_returns_nan[OF h1 zero_row_all_zero]])
qed

text \<open>
  The claim as the specification states it (a zero norm makes \<open>get_embedding\<close> fail
  with an arithmetic fault) does not hold: for a model that returns 128 zeros the
  function returns 128 NaN.
\<close>

theorem get_embedding_zero_norm_counterexample:
  "linalg_norm (replicate 128 (Fin 0)) = Fin 0 \<and>
   session_run zero_model_ext sample_tensor = Inr [replicate 128 (Fin 0)] \<and>
   get_embedding zero_model_ext sample_tensor = Inr (replicate 128 NaN)"
proof -
  have h1: "session_run zero_model_ext sample_tensor = Inr [replicate 128 (Fin 0)]"
    by (simp add: zero_model_ext_def)
  have n: "linalg_norm (replicate 128 (Fin 0)) = Fin 0"
    by (rule normalize_zero[OF zero_row_all_zero, THEN conjunct1])
  have "get_embedding zero_model_ext sample_tensor = Inr (replicate 128 NaN)"
    using h1 by (simp add: get_embedding_def n)
  with h1 n show ?thesis by simp
qed





subsection \<open>The orchestrator: a detected face and the norm of its embedding\<close>







end
